theory Spec2Isabelle
  imports Main "HOL-Library.Word" "HOL-Library.Multiset"
begin

section \<open>Oriented handles and edges\<close>

text \<open>
  Modelled from the spec: \<open>handle_t\<close>, a type of the handle graph library, which is not
  part of the repository. An oriented node handle is "a pair (node-id, reversed?)", and
  flipping inverts the orientation. \<open>get_id\<close>, \<open>get_is_reverse\<close> and \<open>flip\<close> are
  the three accessors the bluntifier uses on it. An \<open>edge_t\<close> is a
  \<open>pair<handle_t, handle_t>\<close>.
\<close>

datatype handle_t = Handle (get_id: nat) (get_is_reverse: bool)

definition flip :: "handle_t \<Rightarrow> handle_t" where
  "flip h = Handle (get_id h) (\<not> get_is_reverse h)"

type_synonym edge_t = "handle_t \<times> handle_t"

section \<open>OverlapMap\<close>

text \<open>
  \<open>OverlapMap::overlaps\<close> is an \<open>unordered_map<edge_t, Alignment>\<close>. The alignment
  (a CIGAR) is kept abstract as the type variable \<open>'a\<close>.

  The exceptions of the program are values of \<open>error\<close>. \<open>NotFound e\<close> is the
  \<open>runtime_error\<close> of \<open>canonicalize_and_find\<close>, whose message prints the ids and
  the orientations of the two handles of \<open>e\<close>. \<open>DanglingTerminus n\<close> is the
  \<open>runtime_error\<close> "biclique terminus does not have any parent" with the node id.
  \<open>LengthError\<close> is the \<open>std::length_error\<close> of a vector that is too long.
  \<open>OutOfRange\<close> stands for an access outside a vector or through an end iterator, which
  is undefined behaviour in the source. \<open>NoSuchPath\<close> is a lookup of a path name that the
  graph does not have. \<open>ParentNotFound\<close> is the \<open>runtime_error\<close> "parent node not
  found on either side of edge" of \<open>NodeInfo\<close>, \<open>NotAChild\<close> the
  \<open>std::out_of_range\<close> of \<open>child_to_parent.at\<close>.
\<close>

datatype error =
    NotFound edge_t
  | DanglingTerminus nat
  | LengthError
  | OutOfRange
  | NoSuchPath string
  | ParentNotFound nat edge_t
  | NotAChild nat

text \<open>
  \<open>OverlapMap::canonicalize_and_find(edge_t& edge, graph)\<close> takes its edge by
  reference and returns an iterator into \<open>overlaps\<close>. The model returns the map after
  the call, the value of the reference argument after the call (also when the function
  throws) and either the exception or the entry (key and alignment) the iterator points to.
\<close>

record 'a caf_outcome =
  overlaps_after :: "edge_t \<rightharpoonup> 'a"
  edge_after :: edge_t
  returned :: "error + (edge_t \<times> 'a)"

definition canonicalize_and_find :: "(edge_t \<rightharpoonup> 'a) \<Rightarrow> edge_t \<Rightarrow> 'a caf_outcome" where
  "canonicalize_and_find overlaps edge =
     (case overlaps edge of
        Some cigar \<Rightarrow>
          \<lparr>overlaps_after = overlaps, edge_after = edge, returned = Inr (edge, cigar)\<rparr>
      | None \<Rightarrow>
          (let right = flip (fst edge);
               left = flip (snd edge);
               edge' = (left, right)
           in case overlaps edge' of
                Some cigar \<Rightarrow>
                  \<lparr>overlaps_after = overlaps, edge_after = edge', returned = Inr (edge', cigar)\<rparr>
              | None \<Rightarrow>
                  \<lparr>overlaps_after = overlaps, edge_after = edge',
                   returned = Inl (NotFound edge')\<rparr>))"

section \<open>Deduplication of a biclique cover\<close>

text \<open>
  A \<open>bipartition\<close> is a pair of handle sets, the left and the right side of a biclique.
  Each set is modelled by the list of its elements in the order in which the range-based
  \<open>for\<close> loop visits them.

  \<open>biclique_size\<close> is the key of the comparator,
  \<open>a.first.size() * a.second.size()\<close>, a product of two \<open>size_t\<close>.
  \<open>sort_cover\<close> is the call of \<open>std::sort\<close> with the comparator
  \<open>size a > size b\<close>: the result is in descending order of the key. \<open>std::sort\<close>
  leaves the order of bicliques of equal size open; the model keeps them in their
  original order.

  \<open>dedup_pair\<close> is the body of the two inner loops, \<open>dedup_rights\<close> and
  \<open>dedup_lefts\<close> are the inner loops, \<open>dedup_bicliques\<close> is the outer loop. The
  state of the inner loops is \<open>edges_processed\<close> and the vector
  \<open>deduplicated_biclique_cover.back()\<close>. An exception of \<open>canonicalize_and_find\<close>
  leaves the function. The function returns the sorted cover (its first argument is sorted
  in place) and the deduplicated cover.
\<close>

type_synonym bipartition = "handle_t list \<times> handle_t list"

definition biclique_size :: "bipartition \<Rightarrow> nat" where
  "biclique_size b = (length (fst b) * length (snd b)) mod 2 ^ 64"










section \<open>Index of the biclique edges of each node\<close>

text \<open>
  \<open>Bluntifier::map_splice_sites_by_node\<close> fills the vector \<open>node_to_biclique_edge\<close>,
  indexed by node id, with \<open>BicliqueEdgeIndex\<close> entries. The vector has been resized to
  the node count plus one by the caller; \<open>operator[]\<close> outside the vector is undefined
  behaviour in the source, where the model stops with \<open>OutOfRange\<close>.
  \<open>splice_edge\<close> is the body of the inner loop, \<open>splice_biclique\<close> the loop over
  \<open>j\<close> and \<open>splice_bicliques\<close> the loop over \<open>i\<close>.
\<close>

datatype BicliqueEdgeIndex = BicliqueEdgeIndex (biclique_index: nat) (edge_index: nat)

definition emplace_back_at ::
  "'b list list \<Rightarrow> nat \<Rightarrow> 'b \<Rightarrow> error + 'b list list" where
  "emplace_back_at v n x = (if n < length v then Inr (v[n := v ! n @ [x]]) else Inl OutOfRange)"

definition splice_edge ::
  "BicliqueEdgeIndex list list \<Rightarrow> nat \<Rightarrow> nat \<Rightarrow> edge_t \<Rightarrow> error + BicliqueEdgeIndex list list" where
  "splice_edge node_to_biclique_edge i j edge =
     (let left_node_id = get_id (fst edge);
          right_node_id = get_id (snd edge)
      in case emplace_back_at node_to_biclique_edge left_node_id (BicliqueEdgeIndex i j) of
           Inl err \<Rightarrow> Inl err
         | Inr v \<Rightarrow>
             if right_node_id \<noteq> left_node_id
             then emplace_back_at v right_node_id (BicliqueEdgeIndex i j)
             else Inr v)"

fun splice_biclique ::
  "BicliqueEdgeIndex list list \<Rightarrow> nat \<Rightarrow> nat \<Rightarrow> edge_t list \<Rightarrow> error + BicliqueEdgeIndex list list" where
  "splice_biclique v i j [] = Inr v"
| "splice_biclique v i j (edge # edges) =
     (case splice_edge v i j edge of
        Inl err \<Rightarrow> Inl err
      | Inr v' \<Rightarrow> splice_biclique v' i (Suc j) edges)"

fun splice_bicliques ::
  "BicliqueEdgeIndex list list \<Rightarrow> nat \<Rightarrow> edge_t list list \<Rightarrow> error + BicliqueEdgeIndex list list" where
  "splice_bicliques v i [] = Inr v"
| "splice_bicliques v i (b # bs) =
     (case splice_biclique v i 0 b of
        Inl err \<Rightarrow> Inl err
      | Inr v' \<Rightarrow> splice_bicliques v' (Suc i) bs)"

definition map_splice_sites_by_node ::
  "edge_t list list \<Rightarrow> BicliqueEdgeIndex list list \<Rightarrow> error + BicliqueEdgeIndex list list" where
  "map_splice_sites_by_node bicliques node_to_biclique_edge =
     splice_bicliques node_to_biclique_edge 0 bicliques"

text \<open>
  For the statement below: the entries that the loops add for node \<open>n\<close>, in order.
\<close>

definition touches :: "nat \<Rightarrow> edge_t \<Rightarrow> bool" where
  "touches n edge \<longleftrightarrow> n = get_id (fst edge) \<or> n = get_id (snd edge)"

fun added_edges :: "nat \<Rightarrow> nat \<Rightarrow> nat \<Rightarrow> edge_t list \<Rightarrow> BicliqueEdgeIndex list" where
  "added_edges n i j [] = []"
| "added_edges n i j (edge # edges) =
     (if touches n edge then [BicliqueEdgeIndex i j] else []) @ added_edges n i (Suc j) edges"

fun added_bicliques :: "nat \<Rightarrow> nat \<Rightarrow> edge_t list list \<Rightarrow> BicliqueEdgeIndex list" where
  "added_bicliques n i [] = []"
| "added_bicliques n i (b # bs) = added_edges n i 0 b @ added_bicliques n (Suc i) bs"

definition ids_in_range :: "nat \<Rightarrow> edge_t list \<Rightarrow> bool" where
  "ids_in_range len edges \<longleftrightarrow> (\<forall>e \<in> set edges. get_id (fst e) < len \<and> get_id (snd e) < len)"

section \<open>NodeInfo: overlaps by side and biclique\<close>

text \<open>
  \<open>NodeInfo::factored_overlaps\<close> is an \<open>array<map<size_t, vector<OverlapInfo>>, 2>\<close>:
  for each side of the node (index 0 the left side, index 1 the right side) an ordered
  map from the biclique index to the overlaps. The model is a pair of association lists
  in key order; the side is a \<open>bool\<close>, \<open>False\<close> for index 0 and \<open>True\<close> for
  index 1. \<open>emplace_back_key k x m\<close> is \<open>m[k].emplace_back(x)\<close>: \<open>operator[]\<close>
  finds the entry of \<open>k\<close> or inserts an empty one at its place in key order. Lengths are
  \<open>size_t\<close>, here 64-bit words.

  The class \<open>Alignment\<close> is not among the sources: its method
  \<open>compute_lengths\<close>, which gives the lengths of the overlap on the two nodes of the
  edge, is a parameter. \<open>get_overlap_length\<close> dereferences \<open>overlaps.at(edge)\<close>, which
  is the end iterator when the edge is not a key.

  \<open>factor_first\<close> and \<open>factor_second\<close> are the two \<open>if\<close> blocks of the loop body,
  for the first and the second handle of the edge; \<open>factor_index\<close> is the loop body and
  \<open>factor_loop\<close> the loop of \<open>factor_overlaps_by_biclique_and_side()\<close>.
  \<open>sort_overlap_infos\<close> is the call of \<open>std::sort\<close> with the comparator
  \<open>a.length > b.length\<close>; overlaps of equal length keep their order in the model.
  \<open>NodeInfo\<close> is the constructor without \<open>child_to_parent\<close>.
\<close>

datatype OverlapInfo = OverlapInfo (ov_edge_index: nat) (ov_length: "64 word")

type_synonym overlap_map = "(nat \<times> OverlapInfo list) list"
type_synonym factored = "overlap_map \<times> overlap_map"

definition emplace_back_key :: "nat \<Rightarrow> OverlapInfo \<Rightarrow> overlap_map \<Rightarrow> overlap_map" where
  "emplace_back_key k x m =
     (if k \<in> fst ` set m
      then map (\<lambda>(a, v). if a = k then (a, v @ [x]) else (a, v)) m
      else insort_key fst (k, [x]) m)"

definition at_side :: "bool \<Rightarrow> factored \<Rightarrow> overlap_map" where
  "at_side side factored_overlaps = (if side then snd factored_overlaps else fst factored_overlaps)"

definition emplace_back_side :: "bool \<Rightarrow> nat \<Rightarrow> OverlapInfo \<Rightarrow> factored \<Rightarrow> factored" where
  "emplace_back_side side k x factored_overlaps =
     (if side then (fst factored_overlaps, emplace_back_key k x (snd factored_overlaps))
      else (emplace_back_key k x (fst factored_overlaps), snd factored_overlaps))"

definition get_overlap_length ::
  "(edge_t \<rightharpoonup> 'a) \<Rightarrow> ('a \<Rightarrow> 64 word \<times> 64 word) \<Rightarrow> edge_t \<Rightarrow> bool \<Rightarrow> error + 64 word" where
  "get_overlap_length overlaps compute_lengths edge side =
     (case overlaps edge of
        None \<Rightarrow> Inl OutOfRange
      | Some cigar \<Rightarrow>
          (let lengths = compute_lengths cigar
           in if \<not> side then Inr (fst lengths) else Inr (snd lengths)))"

definition factor_first ::
  "(edge_t \<rightharpoonup> 'a) \<Rightarrow> ('a \<Rightarrow> 64 word \<times> 64 word) \<Rightarrow> nat \<Rightarrow> BicliqueEdgeIndex \<Rightarrow> edge_t
     \<Rightarrow> nat \<Rightarrow> factored \<Rightarrow> error + factored" where
  "factor_first overlaps compute_lengths node_id index edge left_node_id factored_overlaps =
     (if left_node_id = node_id
      then case get_overlap_length overlaps compute_lengths edge False of
             Inl err \<Rightarrow> Inl err
           | Inr len \<Rightarrow>
               if \<not> get_is_reverse (fst edge)
               then Inr (emplace_back_side True (biclique_index index)
                           (OverlapInfo (edge_index index) len) factored_overlaps)
               else Inr (emplace_back_side False (biclique_index index)
                           (OverlapInfo (edge_index index) len) factored_overlaps)
      else Inr factored_overlaps)"

definition factor_second ::
  "(edge_t \<rightharpoonup> 'a) \<Rightarrow> ('a \<Rightarrow> 64 word \<times> 64 word) \<Rightarrow> nat \<Rightarrow> BicliqueEdgeIndex \<Rightarrow> edge_t
     \<Rightarrow> nat \<Rightarrow> factored \<Rightarrow> error + factored" where
  "factor_second overlaps compute_lengths node_id index edge right_node_id factored_overlaps =
     (if right_node_id = node_id
      then case get_overlap_length overlaps compute_lengths edge True of
             Inl err \<Rightarrow> Inl err
           | Inr len \<Rightarrow>
               if \<not> get_is_reverse (snd edge)
               then Inr (emplace_back_side False (biclique_index index)
                           (OverlapInfo (edge_index index) len) factored_overlaps)
               else Inr (emplace_back_side True (biclique_index index)
                           (OverlapInfo (edge_index index) len) factored_overlaps)
      else Inr factored_overlaps)"

definition biclique_edge :: "edge_t list list \<Rightarrow> BicliqueEdgeIndex \<Rightarrow> error + edge_t" where
  "biclique_edge bicliques i =
     (if biclique_index i < length bicliques
         \<and> edge_index i < length (bicliques ! biclique_index i)
      then Inr (bicliques ! biclique_index i ! edge_index i)
      else Inl OutOfRange)"

definition factor_index ::
  "(edge_t \<rightharpoonup> 'a) \<Rightarrow> ('a \<Rightarrow> 64 word \<times> 64 word) \<Rightarrow> edge_t list list \<Rightarrow> nat
     \<Rightarrow> factored \<Rightarrow> BicliqueEdgeIndex \<Rightarrow> error + factored" where
  "factor_index overlaps compute_lengths bicliques node_id factored_overlaps index =
     (case biclique_edge bicliques index of
        Inl err \<Rightarrow> Inl err
      | Inr edge \<Rightarrow>
          (let left_node_id = get_id (fst edge);
               right_node_id = get_id (snd edge)
           in case factor_first overlaps compute_lengths node_id index edge left_node_id
                     factored_overlaps of
                Inl err \<Rightarrow> Inl err
              | Inr factored_overlaps' \<Rightarrow>
                  factor_second overlaps compute_lengths node_id index edge right_node_id
                    factored_overlaps'))"

fun factor_loop ::
  "(edge_t \<rightharpoonup> 'a) \<Rightarrow> ('a \<Rightarrow> 64 word \<times> 64 word) \<Rightarrow> edge_t list list \<Rightarrow> nat
     \<Rightarrow> factored \<Rightarrow> BicliqueEdgeIndex list \<Rightarrow> error + factored" where
  "factor_loop overlaps compute_lengths bicliques node_id factored_overlaps [] =
     Inr factored_overlaps"
| "factor_loop overlaps compute_lengths bicliques node_id factored_overlaps (index # indexes) =
     (case factor_index overlaps compute_lengths bicliques node_id factored_overlaps index of
        Inl err \<Rightarrow> Inl err
      | Inr factored_overlaps' \<Rightarrow>
          factor_loop overlaps compute_lengths bicliques node_id factored_overlaps' indexes)"

definition factor_overlaps_by_biclique_and_side ::
  "(edge_t \<rightharpoonup> 'a) \<Rightarrow> ('a \<Rightarrow> 64 word \<times> 64 word) \<Rightarrow> BicliqueEdgeIndex list list
     \<Rightarrow> edge_t list list \<Rightarrow> nat \<Rightarrow> factored \<Rightarrow> error + factored" where
  "factor_overlaps_by_biclique_and_side overlaps compute_lengths node_to_biclique_edge bicliques
       node_id factored_overlaps =
     (if node_id < length node_to_biclique_edge
      then factor_loop overlaps compute_lengths bicliques node_id factored_overlaps
             (node_to_biclique_edge ! node_id)
      else Inl OutOfRange)"

definition sort_overlap_infos :: "OverlapInfo list \<Rightarrow> OverlapInfo list" where
  "sort_overlap_infos overlap_infos = rev (sort_key ov_length (rev overlap_infos))"

definition sort_factored_overlaps :: "factored \<Rightarrow> factored" where
  "sort_factored_overlaps factored_overlaps =
     (map (\<lambda>(biclique_index, overlap_infos). (biclique_index, sort_overlap_infos overlap_infos))
        (fst factored_overlaps),
      map (\<lambda>(biclique_index, overlap_infos). (biclique_index, sort_overlap_infos overlap_infos))
        (snd factored_overlaps))"

definition NodeInfo ::
  "(edge_t \<rightharpoonup> 'a) \<Rightarrow> ('a \<Rightarrow> 64 word \<times> 64 word) \<Rightarrow> BicliqueEdgeIndex list list
     \<Rightarrow> edge_t list list \<Rightarrow> nat \<Rightarrow> error + factored" where
  "NodeInfo overlaps compute_lengths node_to_biclique_edge bicliques node_id =
     (case factor_overlaps_by_biclique_and_side overlaps compute_lengths node_to_biclique_edge
             bicliques node_id ([], []) of
        Inl err \<Rightarrow> Inl err
      | Inr factored_overlaps \<Rightarrow> Inr (sort_factored_overlaps factored_overlaps))"

text \<open>
  For the statements below: \<open>overlap_infos\<close> reads the vector of a side and a biclique
  (empty when the biclique has no entry), \<open>contributes\<close> lists what one index adds to it and
  \<open>index_ok\<close> says that an index points to an edge of \<open>bicliques\<close> that is a key of
  the overlap map.
\<close>

definition overlap_infos :: "factored \<Rightarrow> bool \<Rightarrow> nat \<Rightarrow> OverlapInfo list" where
  "overlap_infos factored_overlaps side b =
     (case map_of (at_side side factored_overlaps) b of None \<Rightarrow> [] | Some v \<Rightarrow> v)"

definition contributes ::
  "(edge_t \<rightharpoonup> 'a) \<Rightarrow> ('a \<Rightarrow> 64 word \<times> 64 word) \<Rightarrow> edge_t list list \<Rightarrow> nat
     \<Rightarrow> BicliqueEdgeIndex \<Rightarrow> bool \<Rightarrow> nat \<Rightarrow> OverlapInfo list" where
  "contributes overlaps compute_lengths bicliques node_id index side b =
     (case overlaps (bicliques ! biclique_index index ! edge_index index) of
        None \<Rightarrow> []
      | Some cigar \<Rightarrow>
          (let edge = bicliques ! biclique_index index ! edge_index index
           in (if biclique_index index = b \<and> get_id (fst edge) = node_id
                  \<and> side = (\<not> get_is_reverse (fst edge))
               then [OverlapInfo (edge_index index) (fst (compute_lengths cigar))] else [])
            @ (if biclique_index index = b \<and> get_id (snd edge) = node_id
                  \<and> side = get_is_reverse (snd edge)
               then [OverlapInfo (edge_index index) (snd (compute_lengths cigar))] else [])))"

definition index_ok :: "(edge_t \<rightharpoonup> 'a) \<Rightarrow> edge_t list list \<Rightarrow> BicliqueEdgeIndex \<Rightarrow> bool" where
  "index_ok overlaps bicliques index \<longleftrightarrow>
     biclique_index index < length bicliques
   \<and> edge_index index < length (bicliques ! biclique_index index)
   \<and> bicliques ! biclique_index index ! edge_index index \<in> dom overlaps"

section \<open>The sequence graph\<close>

text \<open>
  Modelled from the spec: the mutable bidirected sequence graph (\<open>HashGraph\<close>, a class of
  the handle graph library, which is not part of the repository), with the operations of
  its public contract that the bluntifier calls: \<open>follow_edges\<close>, \<open>create_edge\<close>,
  \<open>get_length\<close>, \<open>max_node_id\<close> and the path operations. The model keeps the nodes
  with their sequences, the edges and the named paths. A path handle is modelled by the
  name of its path, so \<open>get_path_name\<close> is the identity and \<open>get_path_handle\<close> fails
  for a name without path. An edge \<open>(a, b)\<close> means that the right side of \<open>a\<close> abuts
  the left side of \<open>b\<close>, and it is the same edge as \<open>(flip b, flip a)\<close>:
  \<open>follow_edges g h go_left\<close> lists the handles reached from \<open>h\<close> over its left or
  its right side.
\<close>

record graph =
  nodes :: "(nat \<times> string) list"
  edges :: "edge_t list"
  paths :: "string \<rightharpoonup> handle_t list"

definition max_node_id :: "graph \<Rightarrow> nat" where
  "max_node_id g = fold max (map fst (nodes g)) 0"

text \<open>
  Modelled from the spec: \<open>increment_node_ids\<close> of the graph and
  \<open>copy_path_handle_graph\<close> (declared in copy_graph.hpp, which is not among the sources):
  "Offset S's node ids to be disjoint from the main graph, then copy S in."
\<close>

definition increment_handle :: "nat \<Rightarrow> handle_t \<Rightarrow> handle_t" where
  "increment_handle offset h = Handle (get_id h + offset) (get_is_reverse h)"

definition increment_node_ids :: "nat \<Rightarrow> graph \<Rightarrow> graph" where
  "increment_node_ids offset g =
     \<lparr>nodes = map (\<lambda>(n, s). (n + offset, s)) (nodes g),
      edges = map (\<lambda>(a, b). (increment_handle offset a, increment_handle offset b)) (edges g),
      paths = map_option (map (increment_handle offset)) \<circ> paths g\<rparr>"

definition copy_path_handle_graph :: "graph \<Rightarrow> graph \<Rightarrow> graph" where
  "copy_path_handle_graph source destination =
     \<lparr>nodes = nodes destination @ nodes source,
      edges = edges destination @ edges source,
      paths = paths destination ++ paths source\<rparr>"

text \<open>
  Modelled from the spec: the remaining operations of the graph, as described above.
\<close>

definition follow_edges :: "graph \<Rightarrow> handle_t \<Rightarrow> bool \<Rightarrow> handle_t list" where
  "follow_edges g h go_left =
     (if go_left
      then concat (map (\<lambda>(a, b). (if b = h then [a] else []) @ (if flip a = h then [flip b] else []))
                     (edges g))
      else concat (map (\<lambda>(a, b). (if a = h then [b] else []) @ (if flip b = h then [flip a] else []))
                     (edges g)))"

definition create_edge :: "handle_t \<Rightarrow> handle_t \<Rightarrow> graph \<Rightarrow> graph" where
  "create_edge left right g = g\<lparr>edges := edges g @ [(left, right)]\<rparr>"

definition get_path_handle :: "graph \<Rightarrow> string \<Rightarrow> error + string" where
  "get_path_handle g path_name =
     (case paths g path_name of None \<Rightarrow> Inl (NoSuchPath path_name) | Some steps \<Rightarrow> Inr path_name)"

definition get_path_name :: "graph \<Rightarrow> string \<Rightarrow> string" where
  "get_path_name g path_handle = path_handle"

definition scan_path :: "graph \<Rightarrow> string \<Rightarrow> handle_t list" where
  "scan_path g path_handle = (case paths g path_handle of None \<Rightarrow> [] | Some steps \<Rightarrow> steps)"

section \<open>Splicing the POA subgraphs\<close>

text \<open>
  Modelled from the spec: the classes \<open>OverlappingNodeInfo\<close>, \<open>PathInfo\<close> and
  \<open>Subgraph\<close> and the members of \<open>Bluntifier\<close>, whose headers are not among the
  sources. A subgraph has "one labelled path per input", kept per side of the biclique
  and per terminus handle; an overlapping-overlap node "records the parent and the
  overlapping children per side"; the child/parent map sends a child to its parent, and
  the to-be-destroyed set holds node ids. The records hold the members that Bluntifier.cpp
  reads. \<open>child_to_parent\<close> has the mapped type \<open>pair<nid_t, bool>\<close> of the signature of
  \<open>NodeInfo\<close>, and the parent's node id is its first component.

  \<open>parent_handles\<close> is the \<open>set<handle_t>\<close> filled by the callback of
  \<open>follow_edges(handle, 1 - side, ...)\<close>. \<open>splice_path\<close> is the body of
  \<open>if (not is_oo_child)\<close>, \<open>mark_destroyed\<close> the last \<open>if\<close> of the loop body,
  \<open>splice_terminus\<close> the loop body, \<open>splice_termini\<close> the loop over
  \<open>paths_per_handle[side]\<close>, \<open>splice_subgraph\<close> the body of the loop over the
  subgraphs. The diagnostic output (GFA files, rendering commands, messages) is left out.
\<close>

record OverlappingChild =
  handle :: handle_t

record OverlappingNodeInfo =
  overlapping_children :: "(nat \<times> OverlappingChild) list \<times> (nat \<times> OverlappingChild) list"
  parent_path_name :: string

record PathInfo =
  path_handle :: string
  biclique_side :: bool

record Subgraph =
  graph :: graph
  paths_per_handle :: "(handle_t \<times> PathInfo) list \<times> (handle_t \<times> PathInfo) list"

record bluntifier =
  gfa_graph :: graph
  child_to_parent :: "nat \<rightharpoonup> nat \<times> bool"
  overlapping_overlap_nodes :: "nat \<rightharpoonup> OverlappingNodeInfo"
  to_be_destroyed :: "nat set"

definition is_oo_node_child :: "bluntifier \<Rightarrow> nat \<Rightarrow> bool" where
  "is_oo_node_child b node_id =
     (case child_to_parent b node_id of
        None \<Rightarrow> False
      | Some is_child_result \<Rightarrow>
          (let original_gfa_node = fst is_child_result
           in case overlapping_overlap_nodes b original_gfa_node of
                None \<Rightarrow> False
              | Some result \<Rightarrow>
                  (\<exists>oo_item \<in> set (fst (overlapping_children result)
                                     @ snd (overlapping_children result)).
                     get_id (handle (snd oo_item)) = node_id)))"

definition is_oo_node_parent :: "bluntifier \<Rightarrow> nat \<Rightarrow> error + bool" where
  "is_oo_node_parent b node_id =
     (case child_to_parent b node_id of
        None \<Rightarrow> Inr False
      | Some is_child_result \<Rightarrow>
          (let original_gfa_node = fst is_child_result
           in case overlapping_overlap_nodes b original_gfa_node of
                None \<Rightarrow> Inr False
              | Some result \<Rightarrow>
                  (case get_path_handle (gfa_graph b) (parent_path_name result) of
                     Inl err \<Rightarrow> Inl err
                   | Inr parent_path \<Rightarrow>
                       Inr (\<exists>h \<in> set (scan_path (gfa_graph b) parent_path).
                              get_id h = node_id))))"

definition parent_handles :: "bluntifier \<Rightarrow> handle_t \<Rightarrow> bool \<Rightarrow> handle_t list" where
  "parent_handles b h side =
     remdups (filter (\<lambda>h'. get_id h' \<notin> to_be_destroyed b)
                (follow_edges (gfa_graph b) h (\<not> side)))"

definition splice_parent :: "PathInfo \<Rightarrow> handle_t list \<Rightarrow> graph \<Rightarrow> handle_t \<Rightarrow> graph" where
  "splice_parent path_info steps g parent_handle =
     (if \<not> biclique_side path_info
      then create_edge parent_handle (hd steps) g
      else create_edge (last steps) parent_handle g)"

definition splice_path ::
  "bluntifier \<Rightarrow> Subgraph \<Rightarrow> bool \<Rightarrow> handle_t \<Rightarrow> PathInfo \<Rightarrow> bool \<Rightarrow> error + bluntifier" where
  "splice_path b subgraph side h path_info is_oo_parent =
     (let path_name = get_path_name (graph subgraph) (path_handle path_info)
      in case get_path_handle (gfa_graph b) path_name of
           Inl err \<Rightarrow> Inl err
         | Inr path \<Rightarrow>
             (let parents = parent_handles b h side
              in if parents = [] \<and> \<not> is_oo_parent
                 then Inl (DanglingTerminus (get_id h))
                 else if parents \<noteq> [] \<and> scan_path (gfa_graph b) path = []
                 then Inl OutOfRange
                 else Inr (b\<lparr>gfa_graph :=
                              fold (\<lambda>parent_handle g.
                                      splice_parent path_info (scan_path (gfa_graph b) path)
                                        g parent_handle)
                                   parents (gfa_graph b)\<rparr>)))"

definition mark_destroyed :: "Subgraph \<Rightarrow> bool \<Rightarrow> handle_t \<Rightarrow> bluntifier \<Rightarrow> bluntifier" where
  "mark_destroyed subgraph side h b =
     (let other = (if side then fst (paths_per_handle subgraph)
                   else snd (paths_per_handle subgraph))
      in if h \<notin> fst ` set other \<and> flip h \<notin> fst ` set other
         then b\<lparr>to_be_destroyed := insert (get_id h) (to_be_destroyed b)\<rparr>
         else b)"

definition splice_terminus ::
  "Subgraph \<Rightarrow> bool \<Rightarrow> bluntifier \<Rightarrow> handle_t \<times> PathInfo \<Rightarrow> error + bluntifier" where
  "splice_terminus subgraph side b item =
     (let h = fst item;
          path_info = snd item;
          node_id = get_id h;
          is_oo_child = is_oo_node_child b node_id
      in case is_oo_node_parent b node_id of
           Inl err \<Rightarrow> Inl err
         | Inr is_oo_parent \<Rightarrow>
             (case (if \<not> is_oo_child
                    then splice_path b subgraph side h path_info is_oo_parent
                    else Inr b) of
                Inl err \<Rightarrow> Inl err
              | Inr b' \<Rightarrow> Inr (mark_destroyed subgraph side h b')))"

fun splice_termini ::
  "Subgraph \<Rightarrow> bool \<Rightarrow> bluntifier \<Rightarrow> (handle_t \<times> PathInfo) list \<Rightarrow> error + bluntifier" where
  "splice_termini subgraph side b [] = Inr b"
| "splice_termini subgraph side b (item # items) =
     (case splice_terminus subgraph side b item of
        Inl err \<Rightarrow> Inl err
      | Inr b' \<Rightarrow> splice_termini subgraph side b' items)"

definition splice_subgraph :: "bluntifier \<Rightarrow> Subgraph \<Rightarrow> error + bluntifier" where
  "splice_subgraph b subgraph =
     (let subgraph' = subgraph\<lparr>graph :=
                        increment_node_ids (max_node_id (gfa_graph b)) (graph subgraph)\<rparr>;
          b' = b\<lparr>gfa_graph := copy_path_handle_graph (graph subgraph') (gfa_graph b)\<rparr>
      in case splice_termini subgraph' False b' (fst (paths_per_handle subgraph')) of
           Inl err \<Rightarrow> Inl err
         | Inr b'' \<Rightarrow> splice_termini subgraph' True b'' (snd (paths_per_handle subgraph')))"

fun splice_subgraphs :: "bluntifier \<Rightarrow> Subgraph list \<Rightarrow> error + bluntifier" where
  "splice_subgraphs b [] = Inr b"
| "splice_subgraphs b (subgraph # subgraphs) =
     (case splice_subgraph b subgraph of
        Inl err \<Rightarrow> Inl err
      | Inr b' \<Rightarrow> splice_subgraphs b' subgraphs)"


text \<open>
  Two small states for the examples below: node 5 is a child of node 1 without any edge.
  In \<open>oo_state\<close> node 1 is an overlapping-overlap node with the overlapping child 5,
  which is not on the parent path; in \<open>plain_state\<close> there is no overlapping-overlap node.
\<close>

definition oo_state :: bluntifier where
  "oo_state =
     \<lparr>gfa_graph =
        \<lparr>nodes = [(1, ''ACGT''), (5, ''AC''), (6, ''GT''), (7, ''AC'')],
         edges = [],
         paths = [''1'' \<mapsto> [Handle 6 False], ''5_0'' \<mapsto> [Handle 7 False]]\<rparr>,
      child_to_parent = [5 \<mapsto> (1, False)],
      overlapping_overlap_nodes =
        [1 \<mapsto> \<lparr>overlapping_children = ([(0, \<lparr>handle = Handle 5 False\<rparr>)], []),
                parent_path_name = ''1''\<rparr>],
      to_be_destroyed = {}\<rparr>"

definition plain_state :: bluntifier where
  "plain_state = oo_state\<lparr>overlapping_overlap_nodes := Map.empty\<rparr>"

definition terminus_path :: PathInfo where
  "terminus_path = \<lparr>path_handle = ''5_0'', biclique_side = False\<rparr>"

definition terminus_subgraph :: Subgraph where
  "terminus_subgraph =
     \<lparr>graph = \<lparr>nodes = [(7, ''AC'')], edges = [], paths = [''5_0'' \<mapsto> [Handle 7 False]]\<rparr>,
      paths_per_handle = ([(Handle 5 False, terminus_path)], [])\<rparr>"

section \<open>Provenance\<close>

text \<open>
  \<open>factor_index_parent\<close>, \<open>factor_loop_parent\<close> and \<open>NodeInfo_parent\<close> are the
  constructor of \<open>NodeInfo\<close> with \<open>child_to_parent\<close> and its overload of
  \<open>factor_overlaps_by_biclique_and_side\<close>: every edge is canonicalised first, a child
  counts as its parent, and an edge with the node on neither side raises
  \<open>ParentNotFound\<close>.

  Modelled from the spec: \<open>provenance_members\<close>, the members of \<open>Bluntifier\<close>
  (declared in a header that is not among the sources) that \<open>compute_provenance\<close> reads
  and writes. The provenance is, "for every output node, a map from an input node id to
  (start, stop, reversed?)", and all records are emitted: the model records the calls
  \<open>provenance_map[id].emplace(parent_node_id, info)\<close> in their order, each as the triple
  of the node id, the parent id and the \<open>ProvenanceInfo\<close>. \<open>locals\<close> are the local
  variables of the loop body; \<open>size_t\<close> arithmetic is arithmetic of 64-bit words.
  \<open>to_string\<close> is \<open>std::to_string\<close> on a node id.

  \<open>scan_parent_path\<close> is the loop over the parent path (with its \<open>break\<close>),
  \<open>child_of_edge\<close> the four-way case distinction that yields \<open>child_id\<close>,
  \<open>reversal\<close>, the first \<open>parent_index\<close> and \<open>parent_side\<close>,
  \<open>walk_child_path\<close> the loop over the child's path, \<open>provenance_of_biclique\<close> the
  body of the loop over the bicliques of a side (the reference \<open>edge\<close> into
  \<open>bicliques\<close> is rewritten by \<open>canonicalize_and_find\<close>), \<open>provenance_of_parent\<close>
  the body of the loop over the parent nodes.
\<close>

definition parent_or_self :: "(nat \<rightharpoonup> nat \<times> bool) \<Rightarrow> nat \<Rightarrow> nat" where
  "parent_or_self parents node_id =
     (case parents node_id of
        None \<Rightarrow> node_id
      | Some parent_node \<Rightarrow> fst parent_node)"

definition factor_index_parent ::
  "(edge_t \<rightharpoonup> 'a) \<Rightarrow> ('a \<Rightarrow> 64 word \<times> 64 word) \<Rightarrow> (nat \<rightharpoonup> nat \<times> bool)
     \<Rightarrow> edge_t list list \<Rightarrow> nat \<Rightarrow> factored \<Rightarrow> BicliqueEdgeIndex \<Rightarrow> error + factored" where
  "factor_index_parent overlaps compute_lengths parents bicliques node_id
       factored_overlaps index =
     (case biclique_edge bicliques index of
        Inl err \<Rightarrow> Inl err
      | Inr stored_edge \<Rightarrow>
          (case returned (canonicalize_and_find overlaps stored_edge) of
             Inl err \<Rightarrow> Inl err
           | Inr iter \<Rightarrow>
               (let edge = fst iter;
                    left_node_id = parent_or_self parents (get_id (fst edge));
                    right_node_id = parent_or_self parents (get_id (snd edge))
                in case factor_first overlaps compute_lengths node_id index edge left_node_id
                          factored_overlaps of
                     Inl err \<Rightarrow> Inl err
                   | Inr factored_overlaps' \<Rightarrow>
                       (case factor_second overlaps compute_lengths node_id index edge
                               right_node_id factored_overlaps' of
                          Inl err \<Rightarrow> Inl err
                        | Inr factored_overlaps'' \<Rightarrow>
                            if left_node_id \<noteq> node_id \<and> right_node_id \<noteq> node_id
                            then Inl (ParentNotFound node_id edge)
                            else Inr factored_overlaps''))))"

fun factor_loop_parent ::
  "(edge_t \<rightharpoonup> 'a) \<Rightarrow> ('a \<Rightarrow> 64 word \<times> 64 word) \<Rightarrow> (nat \<rightharpoonup> nat \<times> bool)
     \<Rightarrow> edge_t list list \<Rightarrow> nat \<Rightarrow> factored \<Rightarrow> BicliqueEdgeIndex list \<Rightarrow> error + factored" where
  "factor_loop_parent overlaps compute_lengths parents bicliques node_id
       factored_overlaps [] = Inr factored_overlaps"
| "factor_loop_parent overlaps compute_lengths parents bicliques node_id
       factored_overlaps (index # indexes) =
     (case factor_index_parent overlaps compute_lengths parents bicliques node_id
             factored_overlaps index of
        Inl err \<Rightarrow> Inl err
      | Inr factored_overlaps' \<Rightarrow>
          factor_loop_parent overlaps compute_lengths parents bicliques node_id
            factored_overlaps' indexes)"

definition NodeInfo_parent ::
  "(edge_t \<rightharpoonup> 'a) \<Rightarrow> ('a \<Rightarrow> 64 word \<times> 64 word) \<Rightarrow> BicliqueEdgeIndex list list
     \<Rightarrow> (nat \<rightharpoonup> nat \<times> bool) \<Rightarrow> edge_t list list \<Rightarrow> nat \<Rightarrow> error + factored" where
  "NodeInfo_parent overlaps compute_lengths node_to_biclique_edge parents bicliques node_id =
     (if node_id < length node_to_biclique_edge
      then case factor_loop_parent overlaps compute_lengths parents bicliques node_id
                  ([], []) (node_to_biclique_edge ! node_id) of
             Inl err \<Rightarrow> Inl err
           | Inr factored_overlaps \<Rightarrow> Inr (sort_factored_overlaps factored_overlaps)
      else Inl OutOfRange)"

datatype ProvenanceInfo = ProvenanceInfo (start: "64 word") (stop: "64 word") (reversal: bool)

type_synonym provenance = "nat \<times> nat \<times> ProvenanceInfo"

text \<open>
  Modelled from the spec: \<open>get_length\<close> of the graph, the length of the sequence of the
  node of a handle.
\<close>

definition get_length :: "graph \<Rightarrow> handle_t \<Rightarrow> 64 word" where
  "get_length g h =
     (case map_of (nodes g) (get_id h) of
        None \<Rightarrow> 0
      | Some sequence \<Rightarrow> of_nat (length sequence))"

definition digit :: "nat \<Rightarrow> char" where
  "digit n = ''0123456789'' ! n"

function to_string :: "nat \<Rightarrow> string" where
  "to_string n = (if n < 10 then [digit n] else to_string (n div 10) @ [digit (n mod 10)])"
  by pat_completeness auto
termination
  by (relation "measure (\<lambda>n. n)") auto

declare to_string.simps [simp del]

record 'a provenance_members = bluntifier +
  overlaps' :: "edge_t \<rightharpoonup> 'a"
  node_to_biclique_edge' :: "BicliqueEdgeIndex list list"
  bicliques' :: "edge_t list list"
  provenance_map :: "provenance list"

record locals =
  loop_i :: nat
  parent_index :: "64 word"
  parent_length :: "64 word"
  has_left_child :: bool
  has_right_child :: bool

definition emplace_provenance ::
  "nat \<Rightarrow> nat \<Rightarrow> ProvenanceInfo \<Rightarrow> 'a provenance_members \<Rightarrow> 'a provenance_members" where
  "emplace_provenance node parent_node_id info b =
     b\<lparr>provenance_map := provenance_map b @ [(node, parent_node_id, info)]\<rparr>"

fun scan_parent_path ::
  "nat \<Rightarrow> handle_t list \<Rightarrow> 'a provenance_members \<times> locals \<Rightarrow> 'a provenance_members \<times> locals" where
  "scan_parent_path parent_node_id [] (b, loc) = (b, loc)"
| "scan_parent_path parent_node_id (h # hs) (b, loc) =
     (let node = get_id h;
          len = get_length (gfa_graph b) h;
          loc1 = loc\<lparr>parent_length := parent_length loc + len\<rparr>
      in if node \<in> dom (child_to_parent b)
         then (if loop_i loc1 = 0
               then scan_parent_path parent_node_id hs
                      (b, loc1\<lparr>has_left_child := True,
                               parent_index := parent_index loc1 + len,
                               loop_i := loop_i loc1 + 1\<rparr>)
               else (b, loc1\<lparr>has_right_child := True\<rparr>))
         else if node \<notin> to_be_destroyed b
         then scan_parent_path parent_node_id hs
                (emplace_provenance node parent_node_id
                   (ProvenanceInfo (parent_index loc1) (parent_index loc1 + len - 1) False) b,
                 loc1\<lparr>parent_index := parent_index loc1 + len, loop_i := loop_i loc1 + 1\<rparr>)
         else scan_parent_path parent_node_id hs
                (b, loc1\<lparr>parent_index := parent_index loc1 + len, loop_i := loop_i loc1 + 1\<rparr>))"

fun walk_child_path ::
  "nat \<Rightarrow> bool \<Rightarrow> handle_t list \<Rightarrow> 'a provenance_members \<times> locals
     \<Rightarrow> 'a provenance_members \<times> locals" where
  "walk_child_path parent_node_id reversed [] (b, loc) = (b, loc)"
| "walk_child_path parent_node_id reversed (h # hs) (b, loc) =
     (let node = get_id h;
          len = get_length (gfa_graph b) h
      in walk_child_path parent_node_id reversed hs
           (emplace_provenance node parent_node_id
              (ProvenanceInfo (parent_index loc) (parent_index loc + len - 1) reversed) b,
            loc\<lparr>parent_index := parent_index loc + len, loop_i := loop_i loc + 1\<rparr>))"

definition child_of_edge ::
  "(nat \<rightharpoonup> nat \<times> bool) \<Rightarrow> nat \<Rightarrow> 64 word \<Rightarrow> OverlapInfo \<Rightarrow> edge_t \<Rightarrow> edge_t
     \<Rightarrow> error + (nat \<times> bool \<times> 64 word \<times> bool)" where
  "child_of_edge parents parent_node_id parent_len overlap_info canonical_edge edge =
     (case parents (get_id (fst canonical_edge)) of
        None \<Rightarrow> Inl (NotAChild (get_id (fst canonical_edge)))
      | Some parent_node \<Rightarrow>
          if fst parent_node = parent_node_id
          then (let reversed = get_is_reverse (fst canonical_edge)
                in if reversed
                   then Inr (get_id (fst canonical_edge), reversed, 0,
                             (if canonical_edge \<noteq> edge then True else False))
                   else Inr (get_id (fst canonical_edge), reversed,
                             parent_len - ov_length overlap_info,
                             (if canonical_edge \<noteq> edge then True else False)))
          else (let reversed = get_is_reverse (snd canonical_edge)
                in if reversed
                   then Inr (get_id (snd canonical_edge), reversed,
                             parent_len - ov_length overlap_info,
                             (if canonical_edge \<noteq> edge then False else True))
                   else Inr (get_id (snd canonical_edge), reversed, 0,
                             (if canonical_edge \<noteq> edge then False else True))))"

definition child_path_name :: "nat \<Rightarrow> bool \<Rightarrow> string" where
  "child_path_name child_id parent_side =
     to_string child_id @ ''_'' @ to_string (if parent_side then 1 else 0)"

definition provenance_of_biclique ::
  "nat \<Rightarrow> 'a provenance_members \<times> locals \<Rightarrow> nat \<times> OverlapInfo list
     \<Rightarrow> error + ('a provenance_members \<times> locals)" where
  "provenance_of_biclique parent_node_id st item =
     (let b = fst st;
          loc = snd st;
          biclique_index = fst item;
          overlap_infos = snd item
      in case overlap_infos of
           [] \<Rightarrow> Inl OutOfRange
         | overlap_info # others \<Rightarrow>
             (case biclique_edge (bicliques' b)
                     (BicliqueEdgeIndex biclique_index (ov_edge_index overlap_info)) of
                Inl err \<Rightarrow> Inl err
              | Inr stored_edge \<Rightarrow>
                  (let found = canonicalize_and_find (overlaps' b) stored_edge;
                       edge = edge_after found
                   in case returned found of
                        Inl err \<Rightarrow> Inl err
                      | Inr iter \<Rightarrow>
                          (let canonical_edge = fst iter;
                               b1 = b\<lparr>bicliques' := (bicliques' b)
                                       [biclique_index := (bicliques' b ! biclique_index)
                                          [ov_edge_index overlap_info := edge]]\<rparr>
                           in case child_of_edge (child_to_parent b) parent_node_id
                                     (parent_length loc) overlap_info canonical_edge edge of
                                Inl err \<Rightarrow> Inl err
                              | Inr (child_id, reversed, first_index, parent_side) \<Rightarrow>
                                  (case get_path_handle (gfa_graph b)
                                          (child_path_name child_id parent_side) of
                                     Inl err \<Rightarrow> Inl err
                                   | Inr child_path_handle \<Rightarrow>
                                       Inr (walk_child_path parent_node_id reversed
                                              (scan_path (gfa_graph b) child_path_handle)
                                              (b1, loc\<lparr>parent_index := first_index\<rparr>)))))))"

fun provenance_of_bicliques ::
  "nat \<Rightarrow> 'a provenance_members \<times> locals \<Rightarrow> (nat \<times> OverlapInfo list) list
     \<Rightarrow> error + ('a provenance_members \<times> locals)" where
  "provenance_of_bicliques parent_node_id st [] = Inr st"
| "provenance_of_bicliques parent_node_id st (item # items) =
     (case provenance_of_biclique parent_node_id st item of
        Inl err \<Rightarrow> Inl err
      | Inr st' \<Rightarrow> provenance_of_bicliques parent_node_id st' items)"

definition provenance_of_parent ::
  "('a \<Rightarrow> 64 word \<times> 64 word) \<Rightarrow> 'a provenance_members \<Rightarrow> nat
     \<Rightarrow> error + 'a provenance_members" where
  "provenance_of_parent compute_lengths b parent_node_id =
     (case get_path_handle (gfa_graph b) (to_string parent_node_id) of
        Inl err \<Rightarrow> Inl err
      | Inr parent_path_handle \<Rightarrow>
          (let scanned = scan_parent_path parent_node_id
                           (scan_path (gfa_graph b) parent_path_handle)
                           (b, \<lparr>loop_i = 0, parent_index = 0, parent_length = 0,
                                has_left_child = False, has_right_child = False\<rparr>)
           in case NodeInfo_parent (overlaps' b) compute_lengths (node_to_biclique_edge' b)
                     (child_to_parent b) (bicliques' b) parent_node_id of
                Inl err \<Rightarrow> Inl err
              | Inr factored_overlaps \<Rightarrow>
                  (case provenance_of_bicliques parent_node_id scanned
                          (at_side False factored_overlaps) of
                     Inl err \<Rightarrow> Inl err
                   | Inr st0 \<Rightarrow>
                       (case provenance_of_bicliques parent_node_id st0
                               (at_side True factored_overlaps) of
                          Inl err \<Rightarrow> Inl err
                        | Inr st1 \<Rightarrow> Inr (fst st1)))))"

fun provenance_of_parents ::
  "('a \<Rightarrow> 64 word \<times> 64 word) \<Rightarrow> 'a provenance_members \<Rightarrow> nat list
     \<Rightarrow> error + 'a provenance_members" where
  "provenance_of_parents compute_lengths b [] = Inr b"
| "provenance_of_parents compute_lengths b (parent_node_id # rest) =
     (case provenance_of_parent compute_lengths b parent_node_id of
        Inl err \<Rightarrow> Inl err
      | Inr b' \<Rightarrow> provenance_of_parents compute_lengths b' rest)"

definition compute_provenance ::
  "('a \<Rightarrow> 64 word \<times> 64 word) \<Rightarrow> nat \<Rightarrow> 'a provenance_members \<Rightarrow> error + 'a provenance_members" where
  "compute_provenance compute_lengths names_size b =
     provenance_of_parents compute_lengths b [1 ..< Suc names_size]"











text \<open>
  A second example: a self-loop \<open>(1+, 1+)\<close> of the input whose two ends have been
  duplicated into the children 3 (left) and 4 (right) of node 1. The parent path of node 1
  is \<open>3+, 7+, 4+\<close>, the stored edge is \<open>(4+, 3+)\<close> with an overlap of length 2 on both
  nodes, and the POA paths of the two children are \<open>4_0\<close> and \<open>3_1\<close>.
\<close>

definition provenance_self_loop :: "(64 word \<times> 64 word) provenance_members" where
  "provenance_self_loop =
     \<lparr>gfa_graph =
        \<lparr>nodes = [(3, ''AC''), (4, ''AC''), (7, ''GT''), (8, ''AC''), (9, ''AC'')],
         edges = [],
         paths = [''1'' \<mapsto> [Handle 3 False, Handle 7 False, Handle 4 False],
                  ''4_0'' \<mapsto> [Handle 8 False],
                  ''3_1'' \<mapsto> [Handle 9 False]]\<rparr>,
      child_to_parent = [3 \<mapsto> (1, False), 4 \<mapsto> (1, True)],
      overlapping_overlap_nodes = Map.empty,
      to_be_destroyed = {},
      overlaps' = [(Handle 4 False, Handle 3 False) \<mapsto> (2, 2)],
      node_to_biclique_edge' = [[], [BicliqueEdgeIndex 0 0]],
      bicliques' = [[(Handle 4 False, Handle 3 False)]],
      provenance_map = []\<rparr>"

section \<open>Biclique cover\<close>

text \<open>
  Modelled from the spec: the class \<open>BipartiteGraph\<close>, which is not among the sources.
  A bipartite block is "a pair (Left, Right) of disjoint sets of oriented handles such
  that every edge of the block has one endpoint in each side". The model holds what
  BicliqueCover.cpp reads of it: the two partitions in iteration order and, for every
  handle, the handles that \<open>for_each_adjacent_side\<close> visits; \<open>get_degree\<close> is their
  number.

  \<open>SIZE_MAX\<close> is \<open>numeric_limits<size_t>::max()\<close>, the mark of an unassigned class or
  successor.
\<close>

record BipartiteGraph =
  left_partition :: "handle_t list"
  right_partition :: "handle_t list"
  adjacency :: "handle_t \<Rightarrow> handle_t list"

definition get_degree :: "BipartiteGraph \<Rightarrow> handle_t \<Rightarrow> nat" where
  "get_degree g h = length (adjacency g h)"

definition left_size :: "BipartiteGraph \<Rightarrow> nat" where
  "left_size g = length (left_partition g)"

definition right_size :: "BipartiteGraph \<Rightarrow> nat" where
  "right_size g = length (right_partition g)"

definition SIZE_MAX :: nat where
  "SIZE_MAX = 2 ^ 64 - 1"

text \<open>
  The constructor of \<open>CenteredGaloisTree\<close>, phase by phase.
  \<open>two_hop_subgraph\<close> (\<open>visit_right\<close>, \<open>visit_left\<close>) collects the right nodes
  adjacent to the center and the left nodes adjacent to those, with the edges of each left
  node as indexes into \<open>right_nodes\<close>. \<open>refine_right\<close> and \<open>refine_left\<close> split the
  left nodes into classes of equal neighbourhood (\<open>index_of\<close> is \<open>left_idx[left]\<close>).
  \<open>compact_left\<close> numbers the classes in order of appearance and builds the quotient.
  \<open>group_by_degree\<close> and \<open>order_by_degree\<close> fill \<open>degree_groups\<close> and
  \<open>degree_ordered_nbds\<close>. \<open>link_chains\<close> and \<open>link_chain\<close> set the successor
  and the predecessors of each class and stop with \<open>None\<close> where the source calls
  \<open>clear()\<close> and returns because the successors do not form a tree. \<open>contained\<close> is
  the last check, that the neighbourhood of every predecessor is contained in that of its
  successor (\<open>matched\<close> is the inner loop over \<open>s\<close> and \<open>p\<close>). Indexes are in range by
  construction for a block whose adjacency is symmetric.
\<close>

record CenteredGaloisTree =
  equiv_classes :: "handle_t list list"
  neighborhoods :: "handle_t list list"
  successors :: "nat list"
  equiv_class_predecessors :: "nat list list"

definition clear_tree :: CenteredGaloisTree where
  "clear_tree = \<lparr>equiv_classes = [], neighborhoods = [], successors = [],
                  equiv_class_predecessors = []\<rparr>"

type_synonym two_hop = "(handle_t \<rightharpoonup> nat) \<times> nat list list \<times> handle_t list \<times> handle_t list"

definition visit_left :: "two_hop \<Rightarrow> handle_t \<Rightarrow> two_hop" where
  "visit_left st left =
     (case st of (left_idx, left_edges, left_nodes, right_nodes) \<Rightarrow>
        (case left_idx left of
           None \<Rightarrow>
             (left_idx(left \<mapsto> length left_edges),
              left_edges @ [[length right_nodes]],
              left_nodes @ [left],
              right_nodes)
         | Some f \<Rightarrow>
             (left_idx,
              left_edges[f := left_edges ! f @ [length right_nodes]],
              left_nodes,
              right_nodes)))"

definition visit_right :: "BipartiteGraph \<Rightarrow> two_hop \<Rightarrow> handle_t \<Rightarrow> two_hop" where
  "visit_right g st right =
     (case foldl visit_left st (adjacency g right) of
        (left_idx, left_edges, left_nodes, right_nodes) \<Rightarrow>
          (left_idx, left_edges, left_nodes, right_nodes @ [right]))"

definition two_hop_subgraph :: "BipartiteGraph \<Rightarrow> handle_t \<Rightarrow> two_hop" where
  "two_hop_subgraph g center = foldl (visit_right g) (Map.empty, [], [], []) (adjacency g center)"

definition index_of :: "(handle_t \<rightharpoonup> nat) \<Rightarrow> handle_t \<Rightarrow> nat" where
  "index_of left_idx left = (case left_idx left of None \<Rightarrow> 0 | Some k \<Rightarrow> k)"

definition refine_left ::
  "(handle_t \<rightharpoonup> nat) \<Rightarrow> nat list \<times> nat \<times> (nat \<rightharpoonup> nat) \<Rightarrow> handle_t
     \<Rightarrow> nat list \<times> nat \<times> (nat \<rightharpoonup> nat)" where
  "refine_left left_idx st left =
     (case st of (equiv_class_assignment, next_equiv_class, equiv_mapping) \<Rightarrow>
        (let eq_class = equiv_class_assignment ! index_of left_idx left
         in case equiv_mapping eq_class of
              Some refined \<Rightarrow>
                (equiv_class_assignment[index_of left_idx left := refined],
                 next_equiv_class, equiv_mapping)
            | None \<Rightarrow>
                (equiv_class_assignment[index_of left_idx left := next_equiv_class],
                 next_equiv_class + 1,
                 equiv_mapping(eq_class \<mapsto> next_equiv_class))))"

definition refine_right ::
  "BipartiteGraph \<Rightarrow> (handle_t \<rightharpoonup> nat) \<Rightarrow> nat list \<times> nat \<Rightarrow> handle_t \<Rightarrow> nat list \<times> nat" where
  "refine_right g left_idx st right =
     (case foldl (refine_left left_idx) (fst st, snd st, Map.empty) (adjacency g right) of
        (equiv_class_assignment, next_equiv_class, equiv_mapping) \<Rightarrow>
          (equiv_class_assignment, next_equiv_class))"

type_synonym quotient =
  "nat list \<times> handle_t list list \<times> nat list list \<times> handle_t list list"

definition compact_left ::
  "nat list \<Rightarrow> nat list list \<Rightarrow> handle_t list \<Rightarrow> handle_t list \<Rightarrow> quotient \<Rightarrow> nat \<Rightarrow> quotient" where
  "compact_left equiv_class_assignment left_edges left_nodes right_nodes st i =
     (case st of (compacted_equiv_class, classes, equiv_classes_left_edges, nbds) \<Rightarrow>
        (let eq_class = equiv_class_assignment ! i
         in if compacted_equiv_class ! eq_class = SIZE_MAX
            then (compacted_equiv_class[eq_class := length classes],
                  classes @ [[left_nodes ! i]],
                  equiv_classes_left_edges @ [left_edges ! i],
                  nbds @ [map (\<lambda>j. right_nodes ! j) (left_edges ! i)])
            else (compacted_equiv_class,
                  classes[compacted_equiv_class ! eq_class :=
                            classes ! (compacted_equiv_class ! eq_class) @ [left_nodes ! i]],
                  equiv_classes_left_edges,
                  nbds)))"

definition group_by_degree :: "handle_t list list \<Rightarrow> nat list list \<Rightarrow> nat \<Rightarrow> nat list list" where
  "group_by_degree nbds degree_groups i =
     degree_groups[length (nbds ! i) := degree_groups ! length (nbds ! i) @ [i]]"

definition order_by_degree :: "nat list list \<Rightarrow> nat list list \<Rightarrow> nat \<Rightarrow> nat list list" where
  "order_by_degree equiv_classes_left_edges degree_ordered_nbds left =
     foldl (\<lambda>ordered right. ordered[right := ordered ! right @ [left]])
       degree_ordered_nbds (equiv_classes_left_edges ! left)"

fun link_chain ::
  "nat \<Rightarrow> nat list \<Rightarrow> nat list \<times> nat list list \<Rightarrow> (nat list \<times> nat list list) option" where
  "link_chain pred [] st = Some st"
| "link_chain pred (succ # rest) st =
     (if fst st ! pred = SIZE_MAX
      then link_chain succ rest
             ((fst st)[pred := succ], (snd st)[succ := snd st ! succ @ [pred]])
      else if fst st ! pred \<noteq> succ
      then None
      else link_chain succ rest st)"

fun link_chains ::
  "nat list list \<Rightarrow> nat list \<times> nat list list \<Rightarrow> (nat list \<times> nat list list) option" where
  "link_chains [] st = Some st"
| "link_chains (degree_ordered_nbd # rest) st =
     (case link_chain (hd degree_ordered_nbd) (tl degree_ordered_nbd) st of
        None \<Rightarrow> None
      | Some st' \<Rightarrow> link_chains rest st')"

fun matched :: "nat list \<Rightarrow> nat list \<Rightarrow> nat \<Rightarrow> nat" where
  "matched [] pred_nbd p = p"
| "matched (x # succ_nbd) pred_nbd p =
     (if p < length pred_nbd
      then matched succ_nbd pred_nbd (if x = pred_nbd ! p then p + 1 else p)
      else p)"

definition contained :: "nat list list \<Rightarrow> nat list list \<Rightarrow> bool" where
  "contained equiv_classes_left_edges predecessors =
     list_all (\<lambda>i. list_all (\<lambda>j. \<not> matched (equiv_classes_left_edges ! i)
                                        (equiv_classes_left_edges ! j) 0
                                    < length (equiv_classes_left_edges ! j))
                      (predecessors ! i))
       [0 ..< length equiv_classes_left_edges]"

definition CenteredGaloisTree :: "BipartiteGraph \<Rightarrow> handle_t \<Rightarrow> CenteredGaloisTree" where
  "CenteredGaloisTree g center =
     (case two_hop_subgraph g center of
        (left_idx, left_edges, left_nodes, right_nodes) \<Rightarrow>
     (case foldl (refine_right g left_idx) (replicate (length left_nodes) SIZE_MAX, 0)
             right_nodes of
        (equiv_class_assignment, next_equiv_class) \<Rightarrow>
     (case foldl (compact_left equiv_class_assignment left_edges left_nodes right_nodes)
             (replicate next_equiv_class SIZE_MAX, [], [], []) [0 ..< length left_nodes] of
        (compacted_equiv_class, classes, equiv_classes_left_edges, nbds) \<Rightarrow>
     (let degree_groups =
            foldl (group_by_degree nbds) (replicate (length right_nodes + 1) [])
              [0 ..< length nbds];
          degree_ordered_nbds =
            foldl (order_by_degree equiv_classes_left_edges) (replicate (length right_nodes) [])
              (concat degree_groups)
      in case link_chains degree_ordered_nbds
                (replicate (length classes) SIZE_MAX, replicate (length classes) []) of
           None \<Rightarrow> clear_tree
         | Some (succs, preds) \<Rightarrow>
             if contained equiv_classes_left_edges preds
             then \<lparr>equiv_classes = classes, neighborhoods = nbds, successors = succs,
                   equiv_class_predecessors = preds\<rparr>
             else clear_tree))))"

definition has_neighbor_ordering_property :: "CenteredGaloisTree \<Rightarrow> bool" where
  "has_neighbor_ordering_property t \<longleftrightarrow> equiv_classes t \<noteq> []"

text \<open>
  \<open>make_trees\<close> is the first loop of the constructor of \<open>GaloisLattice\<close>, which
  clears the lattice and returns at the first tree without the neighbor ordering property.
  \<open>separator\<close> begins with \<open>2 * lattice.size() - 2\<close> in \<open>size_t\<close> and the
  construction of a \<open>vector<vector<size_t>>\<close> of that size; a vector of more than
  \<open>max_size\<close> elements cannot be constructed (\<open>std::length_error\<close>), and no
  implementation holds more than \<open>SIZE_MAX / sizeof(T)\<close> elements, here of three words
  each. The loop that follows writes \<open>menger_graph[in]\<close> and \<open>menger_graph[out]\<close> for
  \<open>i + 2 < lattice.size()\<close>, all below \<open>2 * lattice.size() - 4\<close>, and reads
  \<open>lattice[i]\<close>; it raises nothing. Then \<open>menger_graph[source]\<close> is accessed, where
  \<open>source\<close> is \<open>2 * lattice.size() - 2\<close>, the size of the vector: \<open>operator[]\<close>
  outside the vector is undefined behaviour in the source, where the model stops with
  \<open>OutOfRange\<close>.

  The parts of the exact path behind these points are parameters of the model, collected
  in \<open>exact_cover_parts\<close>: \<open>simplify\<close> (the simplification and the
  \<open>BipartiteGraph\<close> built on its result; \<open>SubtractiveHandleGraph\<close> is not among
  the sources), \<open>link_trees\<close> (the rest of the constructor of \<open>GaloisLattice\<close>,
  for trees that all have the property), \<open>min_cut\<close> (the maximum flow of
  \<open>separator\<close> and the translation of its cut) and \<open>biclique\<close>
  (\<open>CenteredGaloisTree::biclique\<close>).
\<close>

record GaloisLattice =
  galois_trees :: "CenteredGaloisTree list"
  lattice :: "nat list list"
  lattice_bicliques :: "(nat \<times> nat) list"
  biclique_index' :: "nat \<times> nat \<rightharpoonup> nat"

fun make_trees ::
  "BipartiteGraph \<Rightarrow> handle_t list \<Rightarrow> CenteredGaloisTree list \<Rightarrow> CenteredGaloisTree list option" where
  "make_trees g [] trees = Some trees"
| "make_trees g (center # centers) trees =
     (if \<not> has_neighbor_ordering_property (CenteredGaloisTree g center)
      then None
      else make_trees g centers (trees @ [CenteredGaloisTree g center]))"

definition GaloisLattice ::
  "(BipartiteGraph \<Rightarrow> CenteredGaloisTree list \<Rightarrow> GaloisLattice) \<Rightarrow> BipartiteGraph \<Rightarrow> GaloisLattice" where
  "GaloisLattice link_trees g =
     (case make_trees g (left_partition g) [] of
        None \<Rightarrow> \<lparr>galois_trees = [], lattice = [], lattice_bicliques = [],
                  biclique_index' = Map.empty\<rparr>
      | Some trees \<Rightarrow> link_trees g trees)"

definition max_size :: nat where
  "max_size = (2 ^ 64 - 1) div 24"

definition separator :: "(GaloisLattice \<Rightarrow> nat list) \<Rightarrow> GaloisLattice \<Rightarrow> error + nat list" where
  "separator min_cut l =
     (let source = 2 * word_of_nat (length (lattice l)) - 2 :: 64 word;
          sink = 2 * word_of_nat (length (lattice l)) - 1 :: 64 word;
          menger_graph_size = 2 * word_of_nat (length (lattice l)) - 2 :: 64 word
      in if max_size < unat menger_graph_size
         then Inl LengthError
         else if \<not> unat source < unat menger_graph_size
         then Inl OutOfRange
         else Inr (min_cut l))"

definition biclique_cover ::
  "(GaloisLattice \<Rightarrow> nat list) \<Rightarrow> (CenteredGaloisTree \<Rightarrow> nat \<Rightarrow> bipartition) \<Rightarrow> GaloisLattice
     \<Rightarrow> error + bipartition list" where
  "biclique_cover min_cut biclique l =
     (case separator min_cut l of
        Inl err \<Rightarrow> Inl err
      | Inr cut_nodes \<Rightarrow>
          Inr (map (\<lambda>i. biclique (galois_trees l ! fst (lattice_bicliques l ! i))
                         (snd (lattice_bicliques l ! i)))
                 cut_nodes))"

record exact_cover_parts =
  simplify :: "BipartiteGraph \<Rightarrow> BipartiteGraph"
  link_trees :: "BipartiteGraph \<Rightarrow> CenteredGaloisTree list \<Rightarrow> GaloisLattice"
  min_cut :: "GaloisLattice \<Rightarrow> nat list"
  biclique :: "CenteredGaloisTree \<Rightarrow> nat \<Rightarrow> bipartition"

definition domino_free_cover :: "exact_cover_parts \<Rightarrow> BipartiteGraph \<Rightarrow> error + bipartition list" where
  "domino_free_cover u g =
     (let bigraph_simplified = simplify u g;
          galois_lattice = GaloisLattice (link_trees u) bigraph_simplified
      in biclique_cover (min_cut u) (biclique u) galois_lattice)"

definition heuristic_cover :: "BipartiteGraph \<Rightarrow> bipartition list" where
  "heuristic_cover g = []"

definition edge_count :: "BipartiteGraph \<Rightarrow> 64 word" where
  "edge_count g = foldl (\<lambda>count h. count + word_of_nat (get_degree g h)) 0 (left_partition g)"

definition get :: "exact_cover_parts \<Rightarrow> BipartiteGraph \<Rightarrow> error + bipartition list" where
  "get u g =
     (case (if edge_count g * (word_of_nat (left_size g) + word_of_nat (right_size g)) \<le> 65536
            then domino_free_cover u g
            else Inr []) of
        Inl err \<Rightarrow> Inl err
      | Inr return_val \<Rightarrow>
          if return_val = [] then Inr (heuristic_cover g) else Inr return_val)"

text \<open>
  For the statements below: \<open>covers\<close> says that every edge of a block lies in a
  biclique of the cover. \<open>block_of\<close> builds a block from the neighbours of each left
  node: left node \<open>x\<close> is the handle \<open>x+\<close>, right node \<open>y\<close> the handle \<open>y-\<close>, as
  for links \<open>x+ \<rightarrow> y+\<close>. \<open>domino_block\<close> has 15 edges and no neighbourhood that
  contains another one; its nodes 1, 2, 3, 11, 12, 13 induce a domino. \<open>star_block\<close>
  has one left node and 256 right nodes. \<open>no_parts\<close> are parameters for the examples.
\<close>

definition covers :: "bipartition list \<Rightarrow> BipartiteGraph \<Rightarrow> bool" where
  "covers cover g \<longleftrightarrow>
     (\<forall>l \<in> set (left_partition g). \<forall>r \<in> set (adjacency g l).
        \<exists>b \<in> set cover. l \<in> set (fst b) \<and> r \<in> set (snd b))"

definition block_of :: "(nat \<times> nat list) list \<Rightarrow> nat list \<Rightarrow> BipartiteGraph" where
  "block_of lefts rights =
     \<lparr>left_partition = map (\<lambda>(x, ys). Handle x False) lefts,
      right_partition = map (\<lambda>y. Handle y True) rights,
      adjacency = (\<lambda>h.
         if get_is_reverse h
         then map (\<lambda>(x, ys). Handle x False) (filter (\<lambda>(x, ys). get_id h \<in> set ys) lefts)
         else concat (map (\<lambda>(x, ys). if x = get_id h then map (\<lambda>y. Handle y True) ys else [])
                        lefts))\<rparr>"

definition domino_block :: BipartiteGraph where
  "domino_block =
     block_of [(1, [11, 12, 14]), (2, [11, 12, 13]), (3, [12, 13, 15]),
               (4, [14, 15]), (5, [11, 15]), (6, [13, 14])]
              [11, 12, 13, 14, 15]"


definition star_block :: BipartiteGraph where
  "star_block = block_of [(1, [2 ..< 258])] [2 ..< 258]"

definition no_parts :: exact_cover_parts where
  "no_parts =
     \<lparr>simplify = (\<lambda>g. g),
      link_trees = (\<lambda>g trees. \<lparr>galois_trees = trees, lattice = [], lattice_bicliques = [],
                                biclique_index' = Map.empty\<rparr>),
      min_cut = (\<lambda>l. []),
      biclique = (\<lambda>t i. ([], []))\<rparr>"

section \<open>Properties of the overlap lookup\<close>

lemma flip_flip [simp]: "flip (flip h) = h"
  by (simp add: flip_def)

lemma flip_neq [simp]: "flip h \<noteq> h"
  by (cases h) (simp add: flip_def)

text \<open>
  C5. A lookup of \<open>(u, v)\<close> succeeds exactly when \<open>(u, v)\<close> or
  \<open>(flip v, flip u)\<close> is a key of the map. The entry returned is a stored one, its key
  is the given edge when that is a key and the flipped edge otherwise (so the key tells
  the caller which form is stored). The lookup throws \<open>NotFound\<close>, naming the edge,
  exactly when neither orientation is a key.
\<close>

theorem canonicalize_and_find_entry:
  fixes overlaps :: "edge_t \<rightharpoonup> 'a"
  shows "(let r = returned (canonicalize_and_find overlaps (u, v)) in
         ((\<exists>k cigar. r = Inr (k, cigar)) \<longleftrightarrow>
            (u, v) \<in> dom overlaps \<or> (flip v, flip u) \<in> dom overlaps)
       \<and> ((\<exists>e. r = Inl e) \<longleftrightarrow>
            (u, v) \<notin> dom overlaps \<and> (flip v, flip u) \<notin> dom overlaps)
       \<and> (\<forall>k cigar. r = Inr (k, cigar) \<longrightarrow>
            overlaps k = Some cigar
            \<and> (k = (u, v) \<or> k = (flip v, flip u))
            \<and> (k = (u, v) \<longleftrightarrow> (u, v) \<in> dom overlaps))
       \<and> (\<forall>e. r = Inl e \<longrightarrow> e = NotFound (flip v, flip u)))"
  unfolding canonicalize_and_find_def
  by (auto simp: Let_def split: option.splits)

theorem canonicalize_and_find_entry_witness:
  "returned (canonicalize_and_find
      [(Handle 2 True, Handle 1 True) \<mapsto> ''2M'']
      (Handle 1 False, Handle 2 False))
     = Inr ((Handle 2 True, Handle 1 True), ''2M'')
   \<and> [(Handle 2 True, Handle 1 True) \<mapsto> ''2M''] (Handle 2 True, Handle 1 True) = Some ''2M''
   \<and> returned (canonicalize_and_find (Map.empty :: edge_t \<rightharpoonup> string)
        (Handle 1 False, Handle 2 False))
     = Inl (NotFound (Handle 2 True, Handle 1 True))"
  using canonicalize_and_find_entry
          [of "[(Handle 2 True, Handle 1 True) \<mapsto> ''2M'']" "Handle 1 False" "Handle 2 False"]
        canonicalize_and_find_entry
          [of "Map.empty :: edge_t \<rightharpoonup> string" "Handle 1 False" "Handle 2 False"]
  by (simp add: canonicalize_and_find_def flip_def Let_def)

text \<open>
  C8. Canonicalisation is idempotent: when an edge is stored in some orientation, the
  lookup returns a key, and a lookup of that key returns the same entry and leaves the
  key as it is.
\<close>

theorem canonicalize_and_find_idempotent:
  fixes overlaps :: "edge_t \<rightharpoonup> 'a"
  assumes "(u, v) \<in> dom overlaps \<or> (flip v, flip u) \<in> dom overlaps"
  shows "\<exists>k cigar. returned (canonicalize_and_find overlaps (u, v)) = Inr (k, cigar)
           \<and> edge_after (canonicalize_and_find overlaps (u, v)) = k
           \<and> returned (canonicalize_and_find overlaps k) = Inr (k, cigar)
           \<and> edge_after (canonicalize_and_find overlaps k) = k"
  using assms unfolding canonicalize_and_find_def
  by (auto simp: Let_def split: option.splits)

theorem canonicalize_and_find_idempotent_witness:
  "returned (canonicalize_and_find
      [(Handle 2 True, Handle 1 True) \<mapsto> ''2M'']
      (Handle 1 False, Handle 2 False))
     = Inr ((Handle 2 True, Handle 1 True), ''2M'')
   \<and> returned (canonicalize_and_find
      [(Handle 2 True, Handle 1 True) \<mapsto> ''2M'']
      (Handle 2 True, Handle 1 True))
     = Inr ((Handle 2 True, Handle 1 True), ''2M'')"
  using canonicalize_and_find_idempotent
          [of "Handle 1 False" "Handle 2 False" "[(Handle 2 True, Handle 1 True) \<mapsto> ''2M'']"]
  by (simp add: canonicalize_and_find_def flip_def Let_def)

text \<open>
  C9. The lookup leaves the overlap map as it is. When it succeeds, the edge argument
  holds the key of the returned entry afterwards, and it still holds its old value
  exactly when the first lookup, in the given orientation, succeeded. When it throws,
  the argument is left in the flipped orientation.
\<close>

theorem canonicalize_and_find_frame:
  fixes overlaps :: "edge_t \<rightharpoonup> 'a"
  shows "(let out = canonicalize_and_find overlaps (u, v) in
         overlaps_after out = overlaps
       \<and> (\<forall>k cigar. returned out = Inr (k, cigar) \<longrightarrow>
            edge_after out = k
            \<and> (edge_after out = (u, v) \<longleftrightarrow> (u, v) \<in> dom overlaps))
       \<and> (\<forall>e. returned out = Inl e \<longrightarrow> edge_after out = (flip v, flip u)))"
  unfolding canonicalize_and_find_def
  by (auto simp: Let_def split: option.splits)

theorem canonicalize_and_find_frame_witness:
  "edge_after (canonicalize_and_find
      [(Handle 2 True, Handle 1 True) \<mapsto> ''2M'']
      (Handle 1 False, Handle 2 False))
     = (Handle 2 True, Handle 1 True)
   \<and> edge_after (canonicalize_and_find (Map.empty :: edge_t \<rightharpoonup> string)
        (Handle 1 False, Handle 2 False))
     = (Handle 2 True, Handle 1 True)
   \<and> returned (canonicalize_and_find (Map.empty :: edge_t \<rightharpoonup> string)
        (Handle 1 False, Handle 2 False))
     = Inl (NotFound (Handle 2 True, Handle 1 True))"
  using canonicalize_and_find_frame
          [of "[(Handle 2 True, Handle 1 True) \<mapsto> ''2M'']" "Handle 1 False" "Handle 2 False"]
        canonicalize_and_find_frame
          [of "Map.empty :: edge_t \<rightharpoonup> string" "Handle 1 False" "Handle 2 False"]
  by (simp add: canonicalize_and_find_def flip_def Let_def)

section \<open>Properties of the deduplication\<close>












lemma biclique_size_exact:
  "length (fst b) * length (snd b) < 2 ^ 64 \<Longrightarrow>
     biclique_size b = length (fst b) * length (snd b)"
  by (simp add: biclique_size_def)


section \<open>Properties of the node index\<close>

lemma splice_edge_ok:
  assumes "get_id (fst e) < length v" "get_id (snd e) < length v"
  shows "\<exists>v'. splice_edge v i j e = Inr v' \<and> length v' = length v
     \<and> (\<forall>n < length v. v' ! n = v ! n @ (if touches n e then [BicliqueEdgeIndex i j] else []))"
  using assms
  by (auto simp: splice_edge_def emplace_back_at_def Let_def touches_def nth_list_update)

lemma splice_biclique_ok:
  assumes "ids_in_range (length v) es"
  shows "\<exists>v'. splice_biclique v i j es = Inr v' \<and> length v' = length v
     \<and> (\<forall>n < length v. v' ! n = v ! n @ added_edges n i j es)"
  using assms
proof (induction es arbitrary: v j)
  case Nil
  then show ?case by simp
next
  case (Cons e es)
  from Cons.prems have e: "get_id (fst e) < length v" "get_id (snd e) < length v"
    and rest: "ids_in_range (length v) es"
    by (auto simp: ids_in_range_def)
  from splice_edge_ok [OF e, of i j] obtain v1 where
    v1: "splice_edge v i j e = Inr v1" "length v1 = length v"
        "\<forall>n < length v. v1 ! n = v ! n @ (if touches n e then [BicliqueEdgeIndex i j] else [])"
    by blast
  from Cons.IH [of v1 "Suc j"] rest v1(2) obtain v2 where
    v2: "splice_biclique v1 i (Suc j) es = Inr v2" "length v2 = length v1"
        "\<forall>n < length v1. v2 ! n = v1 ! n @ added_edges n i (Suc j) es"
    by auto
  show ?case using v1 v2 by simp
qed

lemma splice_bicliques_ok:
  assumes "\<forall>b \<in> set bs. ids_in_range (length v) b"
  shows "\<exists>v'. splice_bicliques v i bs = Inr v' \<and> length v' = length v
     \<and> (\<forall>n < length v. v' ! n = v ! n @ added_bicliques n i bs)"
  using assms
proof (induction bs arbitrary: v i)
  case Nil
  then show ?case by simp
next
  case (Cons b bs)
  from Cons.prems have b: "ids_in_range (length v) b"
    and rest: "\<forall>b \<in> set bs. ids_in_range (length v) b"
    by auto
  from splice_biclique_ok [OF b, of i 0] obtain v1 where
    v1: "splice_biclique v i 0 b = Inr v1" "length v1 = length v"
        "\<forall>n < length v. v1 ! n = v ! n @ added_edges n i 0 b"
    by blast
  from Cons.IH [of v1 "Suc i"] rest v1(2) obtain v2 where
    v2: "splice_bicliques v1 (Suc i) bs = Inr v2" "length v2 = length v1"
        "\<forall>n < length v1. v2 ! n = v1 ! n @ added_bicliques n (Suc i) bs"
    by auto
  show ?case using v1 v2 by simp
qed

lemma count_added_edges:
  "count_list (added_edges n i j es) (BicliqueEdgeIndex i' j') =
     (if i' = i \<and> j \<le> j' \<and> j' < j + length es \<and> touches n (es ! (j' - j)) then 1 else 0)"
proof (induction es arbitrary: j)
  case Nil
  then show ?case by simp
next
  case (Cons e es)
  show ?case
  proof (cases "j' = j")
    case True
    then show ?thesis using Cons.IH [of "Suc j"] by simp
  next
    case False
    then show ?thesis using Cons.IH [of "Suc j"]
      by (auto simp: nth_Cons' Suc_diff_le)
  qed
qed

lemma count_added_bicliques:
  "count_list (added_bicliques n i bs) (BicliqueEdgeIndex i' j') =
     (if i \<le> i' \<and> i' < i + length bs \<and> j' < length (bs ! (i' - i))
         \<and> touches n (bs ! (i' - i) ! j') then 1 else 0)"
proof (induction bs arbitrary: i)
  case Nil
  then show ?case by simp
next
  case (Cons b bs)
  show ?case
  proof (cases "i' = i")
    case True
    then show ?thesis using Cons.IH [of "Suc i"] by (simp add: count_added_edges)
  next
    case False
    then show ?thesis using Cons.IH [of "Suc i"]
      by (auto simp: nth_Cons' Suc_diff_le count_added_edges)
  qed
qed

text \<open>
  C10. When every node id of the biclique es is inside the vector,
  \<open>map_splice_sites_by_node\<close> returns, and the vector of node \<open>n\<close> is its old content
  followed by added entries among which the entry \<open>(i, j)\<close> occurs exactly once when \<open>n\<close>
  is the id of an endpoint of edge \<open>j\<close> of biclique \<open>i\<close> (also when both endpoints have
  that id, a self-loop) and not at all otherwise.
\<close>

theorem map_splice_sites_by_node_entries:
  assumes "\<forall>b \<in> set bicliques. \<forall>e \<in> set b.
             get_id (fst e) < length node_to_biclique_edge
           \<and> get_id (snd e) < length node_to_biclique_edge"
  shows "\<exists>v'. map_splice_sites_by_node bicliques node_to_biclique_edge = Inr v'
     \<and> length v' = length node_to_biclique_edge
     \<and> (\<forall>n < length node_to_biclique_edge. \<exists>added.
          v' ! n = node_to_biclique_edge ! n @ added
        \<and> (\<forall>i j. count_list added (BicliqueEdgeIndex i j) =
             (if i < length bicliques \<and> j < length (bicliques ! i)
                 \<and> (n = get_id (fst (bicliques ! i ! j)) \<or> n = get_id (snd (bicliques ! i ! j)))
              then 1 else 0)))"
proof -
  from assms have "\<forall>b \<in> set bicliques. ids_in_range (length node_to_biclique_edge) b"
    by (simp add: ids_in_range_def)
  from splice_bicliques_ok [OF this, of 0] obtain v' where
    v': "splice_bicliques node_to_biclique_edge 0 bicliques = Inr v'"
        "length v' = length node_to_biclique_edge"
        "\<forall>n < length node_to_biclique_edge.
            v' ! n = node_to_biclique_edge ! n @ added_bicliques n 0 bicliques"
    by blast
  have "\<forall>i j. count_list (added_bicliques n 0 bicliques) (BicliqueEdgeIndex i j) =
             (if i < length bicliques \<and> j < length (bicliques ! i)
                 \<and> (n = get_id (fst (bicliques ! i ! j)) \<or> n = get_id (snd (bicliques ! i ! j)))
              then 1 else 0)" for n
    by (simp add: count_added_bicliques touches_def)
  with v' show ?thesis
    unfolding map_splice_sites_by_node_def by blast
qed

theorem map_splice_sites_by_node_entries_witness:
  "map_splice_sites_by_node
        [[(Handle 1 False, Handle 2 False), (Handle 1 False, Handle 1 True)]] [[], [], []]
      = Inr [[], [BicliqueEdgeIndex 0 0, BicliqueEdgeIndex 0 1], [BicliqueEdgeIndex 0 0]]"
proof -
  have h: "\<forall>b \<in> set [[(Handle 1 False, Handle 2 False), (Handle 1 False, Handle 1 True)]].
      \<forall>e \<in> set b. get_id (fst e) < length [[], [], [] :: BicliqueEdgeIndex list]
                 \<and> get_id (snd e) < length [[], [], [] :: BicliqueEdgeIndex list]"
    by simp
  show ?thesis
    using map_splice_sites_by_node_entries [OF h]
    by (simp add: map_splice_sites_by_node_def splice_edge_def emplace_back_at_def)
qed

section \<open>Properties of NodeInfo\<close>

lemma map_of_insort_key_fresh:
  "k \<notin> fst ` set m \<Longrightarrow> map_of (insort_key fst (k, v) m) = (map_of m)(k \<mapsto> v)"
  by (induction m) (auto simp: fun_eq_iff)

lemma map_of_append_value:
  "map_of (map (\<lambda>(a, v). if a = k then (a, v @ [x]) else (a, v)) m) k' =
     (if k' = k then map_option (\<lambda>v. v @ [x]) (map_of m k) else map_of m k')"
  by (induction m) auto

lemma map_of_emplace_back_key:
  "map_of (emplace_back_key k x m) k' =
     (if k' = k then Some ((case map_of m k of None \<Rightarrow> [] | Some v \<Rightarrow> v) @ [x])
      else map_of m k')"
proof (cases "k \<in> fst ` set m")
  case True
  then obtain v where "map_of m k = Some v"
    by (metis domD dom_map_of_conv_image_fst)
  with True show ?thesis
    by (simp add: emplace_back_key_def map_of_append_value)
next
  case False
  then have "map_of m k = None"
    by (simp add: map_of_eq_None_iff)
  with False show ?thesis
    by (simp add: emplace_back_key_def map_of_insort_key_fresh)
qed

lemma overlap_infos_emplace:
  "overlap_infos (emplace_back_side s k x fo) s' k' =
     overlap_infos fo s' k' @ (if s = s' \<and> k = k' then [x] else [])"
  by (cases s; cases s')
     (auto simp: overlap_infos_def emplace_back_side_def at_side_def map_of_emplace_back_key
           split: option.splits)

lemma factor_first_ok:
  assumes "overlaps edge = Some cigar"
  shows "\<exists>fo'. factor_first overlaps compute_lengths node_id index edge (get_id (fst edge)) fo
            = Inr fo'
     \<and> (\<forall>side b. overlap_infos fo' side b =
          overlap_infos fo side b
            @ (if biclique_index index = b \<and> get_id (fst edge) = node_id
                  \<and> side = (\<not> get_is_reverse (fst edge))
               then [OverlapInfo (edge_index index) (fst (compute_lengths cigar))] else []))"
proof (cases "get_id (fst edge) = node_id")
  case True
  then show ?thesis
    using assms
    by (cases "get_is_reverse (fst edge)")
       (simp_all add: factor_first_def get_overlap_length_def overlap_infos_emplace)
next
  case False
  then show ?thesis by (simp add: factor_first_def)
qed

lemma factor_second_ok:
  assumes "overlaps edge = Some cigar"
  shows "\<exists>fo'. factor_second overlaps compute_lengths node_id index edge (get_id (snd edge)) fo
            = Inr fo'
     \<and> (\<forall>side b. overlap_infos fo' side b =
          overlap_infos fo side b
            @ (if biclique_index index = b \<and> get_id (snd edge) = node_id
                  \<and> side = get_is_reverse (snd edge)
               then [OverlapInfo (edge_index index) (snd (compute_lengths cigar))] else []))"
proof (cases "get_id (snd edge) = node_id")
  case True
  then show ?thesis
    using assms
    by (cases "get_is_reverse (snd edge)")
       (simp_all add: factor_second_def get_overlap_length_def overlap_infos_emplace)
next
  case False
  then show ?thesis by (simp add: factor_second_def)
qed

lemma factor_index_ok:
  assumes "biclique_index index < length bicliques"
    and "edge_index index < length (bicliques ! biclique_index index)"
    and "bicliques ! biclique_index index ! edge_index index \<in> dom overlaps"
  shows "\<exists>fo'. factor_index overlaps compute_lengths bicliques node_id fo index = Inr fo'
     \<and> (\<forall>side b. overlap_infos fo' side b =
          overlap_infos fo side b
            @ contributes overlaps compute_lengths bicliques node_id index side b)"
proof -
  let ?edge = "bicliques ! biclique_index index ! edge_index index"
  from assms(3) obtain cigar where cigar: "overlaps ?edge = Some cigar"
    by auto
  from factor_first_ok [of overlaps ?edge cigar compute_lengths node_id index fo, OF cigar]
  obtain fo1 where fo1:
    "factor_first overlaps compute_lengths node_id index ?edge (get_id (fst ?edge)) fo = Inr fo1"
    "\<forall>side b. overlap_infos fo1 side b =
          overlap_infos fo side b
            @ (if biclique_index index = b \<and> get_id (fst ?edge) = node_id
                  \<and> side = (\<not> get_is_reverse (fst ?edge))
               then [OverlapInfo (edge_index index) (fst (compute_lengths cigar))] else [])"
    by blast
  from factor_second_ok [of overlaps ?edge cigar compute_lengths node_id index fo1, OF cigar]
  obtain fo2 where fo2:
    "factor_second overlaps compute_lengths node_id index ?edge (get_id (snd ?edge)) fo1 = Inr fo2"
    "\<forall>side b. overlap_infos fo2 side b =
          overlap_infos fo1 side b
            @ (if biclique_index index = b \<and> get_id (snd ?edge) = node_id
                  \<and> side = get_is_reverse (snd ?edge)
               then [OverlapInfo (edge_index index) (snd (compute_lengths cigar))] else [])"
    by blast
  have "factor_index overlaps compute_lengths bicliques node_id fo index = Inr fo2"
    using assms(1,2) fo1(1) fo2(1)
    by (simp add: factor_index_def biclique_edge_def Let_def)
  moreover have "\<forall>side b. overlap_infos fo2 side b =
          overlap_infos fo side b
            @ contributes overlaps compute_lengths bicliques node_id index side b"
    using fo1(2) fo2(2) by (simp add: contributes_def cigar Let_def)
  ultimately show ?thesis by blast
qed

lemma factor_loop_ok:
  assumes "\<forall>index \<in> set indexes. index_ok overlaps bicliques index"
  shows "\<exists>fo'. factor_loop overlaps compute_lengths bicliques node_id fo indexes = Inr fo'
     \<and> (\<forall>side b. overlap_infos fo' side b =
          overlap_infos fo side b
            @ concat (map (\<lambda>index. contributes overlaps compute_lengths bicliques node_id
                                     index side b) indexes))"
  using assms
proof (induction indexes arbitrary: fo)
  case Nil
  then show ?case by simp
next
  case (Cons index indexes)
  from Cons.prems have ok: "index_ok overlaps bicliques index"
    and rest: "\<forall>index \<in> set indexes. index_ok overlaps bicliques index"
    by auto
  from ok factor_index_ok [of index bicliques overlaps compute_lengths node_id fo]
  obtain fo1 where fo1:
    "factor_index overlaps compute_lengths bicliques node_id fo index = Inr fo1"
    "\<forall>side b. overlap_infos fo1 side b =
        overlap_infos fo side b @ contributes overlaps compute_lengths bicliques node_id index side b"
    unfolding index_ok_def by blast
  from Cons.IH [OF rest, of fo1] obtain fo2 where fo2:
    "factor_loop overlaps compute_lengths bicliques node_id fo1 indexes = Inr fo2"
    "\<forall>side b. overlap_infos fo2 side b =
          overlap_infos fo1 side b
            @ concat (map (\<lambda>index. contributes overlaps compute_lengths bicliques node_id
                                     index side b) indexes)"
    by blast
  show ?case using fo1 fo2 by simp
qed

lemma overlap_infos_sorted:
  "overlap_infos (sort_factored_overlaps fo) side b = sort_overlap_infos (overlap_infos fo side b)"
proof -
  have "map_of (map (\<lambda>(k, v). (k, sort_overlap_infos v)) m) b
          = map_option sort_overlap_infos (map_of m b)" for m :: overlap_map
    by (induction m) auto
  then show ?thesis
    by (cases side)
       (auto simp: overlap_infos_def sort_factored_overlaps_def at_side_def sort_overlap_infos_def
             split: option.splits)
qed

lemma sort_overlap_infos_set: "set (sort_overlap_infos xs) = set xs"
  by (simp add: sort_overlap_infos_def)

lemma sort_overlap_infos_sorted:
  "sorted_wrt (\<lambda>x y. ov_length y \<le> ov_length x) (sort_overlap_infos xs)"
proof -
  have "sorted (map ov_length (sort_key ov_length (rev xs)))"
    by (rule sorted_sort_key)
  then have "sorted_wrt (\<lambda>x y. ov_length x \<le> ov_length y) (sort_key ov_length (rev xs))"
    by (simp add: sorted_wrt_map)
  then show ?thesis
    unfolding sort_overlap_infos_def by (simp add: sorted_wrt_rev)
qed

text \<open>
  C6. When the indexes of the node point to edges of \<open>bicliques\<close> that are keys of the
  overlap map, the constructor returns, and for each side and biclique the list is in
  descending order of length and holds \<open>(j, len)\<close> exactly when \<open>(b, j)\<close> is an index of
  the node and either the first handle of the edge is on the node, the side is the right
  one (index 1) for a forward handle and the left one (index 0) for a reversed handle, and
  \<open>len\<close> is the first length; or the second handle of the edge is on the node, the side
  is the left one for a forward handle and the right one for a reversed handle, and
  \<open>len\<close> is the second length.
\<close>

theorem factored_overlaps_sides_sorted:
  fixes overlaps :: "edge_t \<rightharpoonup> 'a"
  assumes node: "node_id < length node_to_biclique_edge"
    and idx: "\<forall>index \<in> set (node_to_biclique_edge ! node_id).
               biclique_index index < length bicliques
             \<and> edge_index index < length (bicliques ! biclique_index index)
             \<and> bicliques ! biclique_index index ! edge_index index \<in> dom overlaps"
  shows "\<exists>fo. NodeInfo overlaps compute_lengths node_to_biclique_edge bicliques node_id = Inr fo
     \<and> (\<forall>side b.
          sorted_wrt (\<lambda>x y. ov_length y \<le> ov_length x) (overlap_infos fo side b)
        \<and> (\<forall>j len. OverlapInfo j len \<in> set (overlap_infos fo side b) \<longleftrightarrow>
             BicliqueEdgeIndex b j \<in> set (node_to_biclique_edge ! node_id)
           \<and> (\<exists>cigar. overlaps (bicliques ! b ! j) = Some cigar
                \<and> (get_id (fst (bicliques ! b ! j)) = node_id
                      \<and> side = (\<not> get_is_reverse (fst (bicliques ! b ! j)))
                      \<and> len = fst (compute_lengths cigar)
                   \<or> get_id (snd (bicliques ! b ! j)) = node_id
                      \<and> side = get_is_reverse (snd (bicliques ! b ! j))
                      \<and> len = snd (compute_lengths cigar)))))"
proof -
  let ?ixs = "node_to_biclique_edge ! node_id"
  from idx have "\<forall>index \<in> set ?ixs. index_ok overlaps bicliques index"
    by (simp add: index_ok_def)
  from factor_loop_ok [OF this, of compute_lengths node_id "([], [])"] obtain fo where fo:
    "factor_loop overlaps compute_lengths bicliques node_id ([], []) ?ixs = Inr fo"
    "\<forall>side b. overlap_infos fo side b =
        concat (map (\<lambda>index. contributes overlaps compute_lengths bicliques node_id
                                     index side b) ?ixs)"
    by (auto simp: overlap_infos_def at_side_def)
  have res: "NodeInfo overlaps compute_lengths node_to_biclique_edge bicliques node_id
               = Inr (sort_factored_overlaps fo)"
    using node fo(1) by (simp add: NodeInfo_def factor_overlaps_by_biclique_and_side_def)
  have mem: "OverlapInfo j len \<in> set (overlap_infos (sort_factored_overlaps fo) side b) \<longleftrightarrow>
             BicliqueEdgeIndex b j \<in> set ?ixs
           \<and> (\<exists>cigar. overlaps (bicliques ! b ! j) = Some cigar
                \<and> (get_id (fst (bicliques ! b ! j)) = node_id
                      \<and> side = (\<not> get_is_reverse (fst (bicliques ! b ! j)))
                      \<and> len = fst (compute_lengths cigar)
                   \<or> get_id (snd (bicliques ! b ! j)) = node_id
                      \<and> side = get_is_reverse (snd (bicliques ! b ! j))
                      \<and> len = snd (compute_lengths cigar)))" (is "?L \<longleftrightarrow> ?R") for j len side b
  proof
    assume ?L
    then obtain index where index: "index \<in> set ?ixs"
      "OverlapInfo j len \<in> set (contributes overlaps compute_lengths bicliques node_id index side b)"
      by (auto simp: overlap_infos_sorted sort_overlap_infos_set fo(2))
    from idx index(1) obtain cigar where
      cigar: "overlaps (bicliques ! biclique_index index ! edge_index index) = Some cigar"
      by blast
    from index(2) have bj: "biclique_index index = b" "edge_index index = j"
      by (auto simp: contributes_def cigar Let_def split: if_splits)
    then have ix: "index = BicliqueEdgeIndex b j"
      by (cases index) simp
    from cigar bj have cigar': "overlaps (bicliques ! b ! j) = Some cigar"
      by simp
    from index(2) have
      "get_id (fst (bicliques ! b ! j)) = node_id
          \<and> side = (\<not> get_is_reverse (fst (bicliques ! b ! j)))
          \<and> len = fst (compute_lengths cigar)
       \<or> get_id (snd (bicliques ! b ! j)) = node_id
          \<and> side = get_is_reverse (snd (bicliques ! b ! j))
          \<and> len = snd (compute_lengths cigar)"
      by (auto simp: contributes_def ix cigar' Let_def split: if_splits)
    with cigar' index(1) ix show ?R
      by blast
  next
    assume ?R
    then have "OverlapInfo j len \<in> set (contributes overlaps compute_lengths bicliques node_id
                   (BicliqueEdgeIndex b j) side b)"
      by (auto simp: contributes_def Let_def)
    with \<open>?R\<close> show ?L
      by (auto simp: overlap_infos_sorted sort_overlap_infos_set fo(2))
  qed
  show ?thesis
    using res mem
    by (intro exI [of _ "sort_factored_overlaps fo"] conjI allI)
       (simp_all add: overlap_infos_sorted sort_overlap_infos_sorted)
qed


theorem factored_overlaps_sides_sorted_witness:
  "NodeInfo
        [(Handle 1 False, Handle 2 False) \<mapsto> (2, 2), (Handle 3 True, Handle 1 True) \<mapsto> (3, 4)]
        (\<lambda>cigar. cigar)
        [[], [BicliqueEdgeIndex 0 0, BicliqueEdgeIndex 0 1, BicliqueEdgeIndex 1 0]]
        [[(Handle 1 False, Handle 2 False), (Handle 3 True, Handle 1 True)],
         [(Handle 1 False, Handle 2 False)]]
        1
      = Inr ([], [(0, [OverlapInfo 1 4, OverlapInfo 0 2]), (1, [OverlapInfo 0 2])])"
proof -
  let ?ov = "[(Handle 1 False, Handle 2 False) \<mapsto> (2, 2),
              (Handle 3 True, Handle 1 True) \<mapsto> (3, 4)] :: edge_t \<rightharpoonup> 64 word \<times> 64 word"
  let ?n2b = "[[], [BicliqueEdgeIndex 0 0, BicliqueEdgeIndex 0 1, BicliqueEdgeIndex 1 0]]"
  let ?bs = "[[(Handle 1 False, Handle 2 False), (Handle 3 True, Handle 1 True)],
              [(Handle 1 False, Handle 2 False)]]"
  have h1: "(1::nat) < length ?n2b" by simp
  have h2: "\<forall>index \<in> set (?n2b ! 1).
               biclique_index index < length ?bs
             \<and> edge_index index < length (?bs ! biclique_index index)
             \<and> ?bs ! biclique_index index ! edge_index index \<in> dom ?ov"
    by simp
  show "NodeInfo ?ov (\<lambda>cigar. cigar) ?n2b ?bs 1
      = Inr ([], [(0, [OverlapInfo 1 4, OverlapInfo 0 2]), (1, [OverlapInfo 0 2])])"
    using factored_overlaps_sides_sorted [OF h1 h2, of "\<lambda>cigar. cigar"]
    by (simp add: NodeInfo_def factor_overlaps_by_biclique_and_side_def factor_index_def
          biclique_edge_def factor_first_def factor_second_def get_overlap_length_def
          emplace_back_side_def emplace_back_key_def sort_factored_overlaps_def
          sort_overlap_infos_def Let_def)
qed

section \<open>Properties of the splicing\<close>

lemma is_oo_node_parent_error:
  "is_oo_node_parent b node_id = Inl err \<Longrightarrow> \<exists>name. err = NoSuchPath name"
  by (auto simp: is_oo_node_parent_def get_path_handle_def Let_def
           split: option.splits sum.splits)

text \<open>
  C7, as amended. Splicing a terminus fails with \<open>DanglingTerminus n\<close> exactly when
  \<open>n\<close> is the node id of the terminus, the node is not an overlapping-overlap child, it
  is not an overlapping-overlap parent, its POA path is in the main graph, and it has no
  adjacent handle on the side away from the biclique that is not to be destroyed.
\<close>

theorem splice_terminus_dangling:
  "splice_terminus subgraph side b (h, path_info) = Inl (DanglingTerminus n) \<longleftrightarrow>
     n = get_id h
   \<and> \<not> is_oo_node_child b (get_id h)
   \<and> is_oo_node_parent b (get_id h) = Inr False
   \<and> path_handle path_info \<in> dom (paths (gfa_graph b))
   \<and> parent_handles b h side = []"
  by (auto simp: splice_terminus_def splice_path_def get_path_handle_def get_path_name_def Let_def
           dest: is_oo_node_parent_error
           split: sum.splits option.splits if_splits)

theorem splice_terminus_dangling_witness:
  "splice_terminus terminus_subgraph False plain_state (Handle 5 False, terminus_path)
     = Inl (DanglingTerminus 5)
   \<and> \<not> is_oo_node_child plain_state 5
   \<and> is_oo_node_parent plain_state 5 = Inr False
   \<and> parent_handles plain_state (Handle 5 False) False = []"
  using splice_terminus_dangling
          [of terminus_subgraph False plain_state "Handle 5 False" terminus_path 5]
  by (simp add: plain_state_def oo_state_def terminus_path_def is_oo_node_child_def
        is_oo_node_parent_def parent_handles_def follow_edges_def)

text \<open>
  C7, as stated, fails for an overlapping-overlap child: node 5 has no adjacent handle and
  is not an overlapping-overlap parent, and splicing it raises no error.
\<close>

theorem splice_terminus_oo_child_counterexample:
  "parent_handles oo_state (Handle 5 False) False = []
   \<and> is_oo_node_parent oo_state 5 = Inr False
   \<and> splice_terminus terminus_subgraph False oo_state (Handle 5 False, terminus_path)
       = Inr (oo_state\<lparr>to_be_destroyed := {5}\<rparr>)"
  by (simp add: splice_terminus_def oo_state_def terminus_path_def terminus_subgraph_def
        is_oo_node_child_def is_oo_node_parent_def parent_handles_def follow_edges_def
        get_path_handle_def scan_path_def mark_destroyed_def flip_def Let_def)

section \<open>Properties of the provenance\<close>


































text \<open>
  When both handles of the canonical edge lie on the parent, the loop body does not read
  the side it is working on: it takes the first handle on both sides. In the second
  example the overlap of the left side starts at \<open>6 - 2 = 4\<close>, the path \<open>4_0\<close> is
  walked twice and the path \<open>3_1\<close> is not walked.
\<close>

lemma provenance_self_loop_records:
  "map_sum id provenance_map (provenance_of_parent id provenance_self_loop 1)
   = Inr [(7, 1, ProvenanceInfo 2 3 False),
          (8, 1, ProvenanceInfo 4 5 False),
          (8, 1, ProvenanceInfo 4 5 False)]"
  by (simp add: provenance_of_parent_def provenance_self_loop_def get_path_handle_def
        scan_path_def get_length_def emplace_provenance_def NodeInfo_parent_def
        factor_index_parent_def biclique_edge_def canonicalize_and_find_def parent_or_self_def
        factor_first_def factor_second_def get_overlap_length_def emplace_back_side_def
        emplace_back_key_def sort_factored_overlaps_def sort_overlap_infos_def at_side_def
        provenance_of_biclique_def child_of_edge_def child_path_name_def to_string.simps
        digit_def Let_def)

section \<open>Properties of the biclique cover\<close>

lemma make_trees_fails:
  "\<exists>center \<in> set centers. \<not> has_neighbor_ordering_property (CenteredGaloisTree g center) \<Longrightarrow>
     make_trees g centers trees = None"
  by (induction centers arbitrary: trees) auto

lemma separator_empty_lattice:
  "lattice l = [] \<Longrightarrow> separator min_cut_fn l = Inl LengthError"
  by (simp add: separator_def max_size_def Let_def)

text \<open>
  C2, what the code does. When some centered Galois tree of the simplified block lacks
  the neighbor ordering property, the exact path does not return an empty vector: the
  lattice has been cleared, \<open>separator\<close> asks for a vector of \<open>2 * 0 - 2\<close> elements
  and \<open>std::length_error\<close> leaves \<open>domino_free_cover\<close>, and \<open>get\<close> with it when
  the block is within the size bound of the exact path.
\<close>

theorem not_domino_free_length_error:
  assumes "\<exists>center \<in> set (left_partition (simplify u g)).
             \<not> has_neighbor_ordering_property (CenteredGaloisTree (simplify u g) center)"
  shows "domino_free_cover u g = Inl LengthError
       \<and> (edge_count g * (word_of_nat (left_size g) + word_of_nat (right_size g)) \<le> 65536
            \<longrightarrow> get u g = Inl LengthError)"
proof -
  have "make_trees (simplify u g) (left_partition (simplify u g)) [] = None"
    using assms by (rule make_trees_fails)
  then have "lattice (GaloisLattice (link_trees u) (simplify u g)) = []"
    by (simp add: GaloisLattice_def)
  then have "domino_free_cover u g = Inl LengthError"
    by (simp add: domino_free_cover_def biclique_cover_def separator_empty_lattice Let_def)
  then show ?thesis
    by (simp add: get_def)
qed

lemma domino_block_tree:
  "CenteredGaloisTree domino_block (Handle 2 False) = clear_tree"
  by (simp add: CenteredGaloisTree_def domino_block_def block_of_def two_hop_subgraph_def
       visit_right_def visit_left_def refine_right_def refine_left_def index_of_def
       compact_left_def group_by_degree_def order_by_degree_def contained_def SIZE_MAX_def
       clear_tree_def Let_def upt_conv_Cons)

lemma domino_block_small:
  "edge_count domino_block
     * (word_of_nat (left_size domino_block) + word_of_nat (right_size domino_block)) = 165"
  by (simp add: edge_count_def get_degree_def left_size_def right_size_def domino_block_def
        block_of_def)

theorem not_domino_free_length_error_witness:
  "domino_free_cover no_parts domino_block = Inl LengthError
   \<and> get no_parts domino_block = Inl LengthError"
proof -
  have "\<not> has_neighbor_ordering_property
            (CenteredGaloisTree (simplify no_parts domino_block) (Handle 2 False))"
    by (simp add: no_parts_def domino_block_tree has_neighbor_ordering_property_def
          clear_tree_def)
  moreover have "Handle 2 False \<in> set (left_partition (simplify no_parts domino_block))"
    by (simp add: no_parts_def domino_block_def block_of_def)
  ultimately have h: "\<exists>center \<in> set (left_partition (simplify no_parts domino_block)).
             \<not> has_neighbor_ordering_property
                 (CenteredGaloisTree (simplify no_parts domino_block) center)"
    by blast
  from not_domino_free_length_error [OF h] show ?thesis
    by (simp add: domino_block_small)
qed

text \<open>
  C1, what the code does. For a block beyond the size bound of the exact path
  \<open>get\<close> returns the result of \<open>heuristic_cover\<close>, the empty cover, which covers
  the block only if the block has no edge.
\<close>

theorem large_block_empty_cover:
  assumes "65536 < edge_count g * (word_of_nat (left_size g) + word_of_nat (right_size g))"
  shows "get u g = Inr []
       \<and> (covers [] g \<longleftrightarrow> (\<forall>l \<in> set (left_partition g). adjacency g l = []))"
  using assms
  by (auto simp: get_def heuristic_cover_def covers_def not_le [symmetric])

lemma star_block_large:
  "edge_count star_block
     * (word_of_nat (left_size star_block) + word_of_nat (right_size star_block)) = 65792"
  by (simp add: edge_count_def get_degree_def left_size_def right_size_def star_block_def
        block_of_def)

theorem large_block_empty_cover_witness:
  "get no_parts star_block = Inr [] \<and> \<not> covers [] star_block"
proof -
  have h: "65536 < edge_count star_block
             * (word_of_nat (left_size star_block) + word_of_nat (right_size star_block))"
    by (simp add: star_block_large)
  have "adjacency star_block (Handle 1 False) \<noteq> []"
    by (simp add: star_block_def block_of_def upt_conv_Cons)
  moreover have "Handle 1 False \<in> set (left_partition star_block)"
    by (simp add: star_block_def block_of_def)
  ultimately have "\<not> (\<forall>l \<in> set (left_partition star_block). adjacency star_block l = [])"
    by blast
  with large_block_empty_cover [OF h, of no_parts] show ?thesis
    by simp
qed


end
